theory Spec2Isabelle
  imports Main "HOL-Library.Word"
begin

section \<open>Broadcast campaign dispatch: data model\<close>

text \<open>
  The broadcast code lives in three services:
  \<^item> \<open>TelegramBroadcastService\<close> (internal/services/cleanup_service.go, from line 937),
    working on \<open>models.TelegramBroadcast\<close>;
  \<^item> \<open>BroadcastService\<close> (the service file with \<open>SendBroadcast\<close> and
    \<open>UpdateBroadcast\<close>), working on a broadcast with string recipients;
  \<^item> \<open>WhatsAppService.BroadcastMessage\<close> and \<open>processBroadcastBatch\<close>
    (cleanup_service.go, lines 624 to 693), the only batched dispatcher.

  Go values are modelled as follows. A \<open>uuid.UUID\<close> is a 128-bit word, an \<open>int64\<close> a
  64-bit word read with \<open>sint\<close>, a \<open>string\<close> a list of bytes. A \<open>time.Time\<close> is a number of
  nanoseconds (an unbounded \<open>int\<close>), a \<open>*time.Time\<close> an option. Counters of Go type \<open>int\<close>
  are \<open>int\<close>: every counter below is bounded by the length of a slice, so none can wrap.
  A non-nil \<open>error\<close> is a value of the datatype \<open>error\<close>.
\<close>

type_synonym uuid = "128 word"
type_synonym int64 = "64 word"
type_synonym time = int

datatype error =
    ErrRecordNotFound          \<comment> \<open>gorm: \<open>First\<close> found no row\<close>
  | ErrStorage                 \<comment> \<open>the storage layer rejected a write\<close>
  | ErrParse                   \<comment> \<open>\<open>time.Parse\<close> rejected its input\<close>
  | Errorf string              \<comment> \<open>\<open>fmt.Errorf\<close> with this message\<close>
  | ErrExternal string         \<comment> \<open>an error of a collaborator; \<open>err.Error()\<close> is the string\<close>

text \<open>The method \<open>err.Error()\<close>.\<close>

fun err_Error :: "error \<Rightarrow> string" where
  "err_Error ErrRecordNotFound = ''record not found''"
| "err_Error ErrStorage = ''storage error''"
| "err_Error ErrParse = ''parsing time''"
| "err_Error (Errorf m) = m"
| "err_Error (ErrExternal m) = m"

text \<open>A Go call either returns or panics (an index out of range).\<close>

datatype 'a go = Panics | Returns 'a

subsection \<open>The persistent store\<close>

text \<open>
  A table is the list of its rows. \<open>First\<close> with \<open>Where("id = ?", k)\<close> returns the first row
  whose primary key is \<open>k\<close>; \<open>Save\<close> rewrites the rows that carry the primary key of the
  struct and inserts the struct when there is none; \<open>Create\<close> inserts and fails on a
  primary key that is taken. The flag \<open>ok\<close> of a write says whether the storage layer
  accepts it: the code has an error branch after every write. A read fails with
  \<open>ErrRecordNotFound\<close> when there is no such row; the code treats every error of a
  read alike.
\<close>

definition First :: "('a \<Rightarrow> uuid) \<Rightarrow> 'a list \<Rightarrow> uuid \<Rightarrow> error + 'a" where
  "First key t k =
     (case find (\<lambda>r. key r = k) t of None \<Rightarrow> Inl ErrRecordNotFound | Some r \<Rightarrow> Inr r)"

definition Save_rows :: "('a \<Rightarrow> uuid) \<Rightarrow> 'a list \<Rightarrow> 'a \<Rightarrow> 'a list" where
  "Save_rows key t r =
     (if key r \<in> set (map key t) then map (\<lambda>x. if key x = key r then r else x) t
      else t @ [r])"

definition Save :: "('a \<Rightarrow> uuid) \<Rightarrow> bool \<Rightarrow> 'a list \<Rightarrow> 'a \<Rightarrow> error + 'a list" where
  "Save key ok t r = (if \<not> ok then Inl ErrStorage else Inr (Save_rows key t r))"

definition Create :: "('a \<Rightarrow> uuid) \<Rightarrow> bool \<Rightarrow> 'a list \<Rightarrow> 'a \<Rightarrow> error + 'a list" where
  "Create key ok t r =
     (if \<not> ok \<or> key r \<in> set (map key t) then Inl ErrStorage else Inr (t @ [r]))"

subsection \<open>Formatting\<close>

text \<open>\<open>fmt.Sprintf("%d", n)\<close>: the decimal digits of \<open>n\<close>, with a minus sign when negative.\<close>

fun decimal :: "nat \<Rightarrow> string" where
  "decimal n =
     (if n < 10 then [''0123456789'' ! n]
      else decimal (n div 10) @ [''0123456789'' ! (n mod 10)])"

definition Sprintf_d :: "int \<Rightarrow> string" where
  "Sprintf_d i = (if i < 0 then CHR ''-'' # decimal (nat (- i)) else decimal (nat i))"

section \<open>WhatsAppService: the batched dispatcher\<close>

subsection \<open>Rows and requests\<close>

text \<open>
  The structs of internal/models/models.go that the dispatcher writes. Of \<open>BaseModel\<close>
  only the primary key is kept: the dispatcher never reads the timestamps gorm maintains.
  \<open>Message\<close> has the fields \<open>SendMessage\<close> sets. \<open>BroadcastRecipient\<close> has the field
  \<open>MessageID\<close> that \<open>processBroadcastBatch\<close> assigns.
\<close>

record Message =
  ID :: uuid
  UserID :: uuid
  MessageID :: string
  Content :: string
  MessageType :: string
  Direction :: string
  Status :: string
  Timestamp :: time

record BroadcastRecipient =
  ID :: uuid
  BroadcastID :: uuid
  ContactID :: uuid
  Status :: string
  SentAt :: "time option"
  Error :: string
  MessageID :: uuid

record Broadcast =
  ID :: uuid
  UserID :: uuid
  Name :: string
  Content :: string
  MessageType :: string
  MediaURL :: string
  Status :: string
  ScheduledAt :: "time option"
  SentAt :: "time option"
  TotalSent :: int
  TotalFailed :: int

text \<open>\<open>whatsapp.MessageRequest\<close> (pkg/whatsapp/client.go), with the fields set here.\<close>

record MessageRequest =
  MessagingProduct :: string
  RecipientType :: string
  To :: string
  Type :: string
  Text :: "string option"
  Image :: "string option"

subsection \<open>Collaborators\<close>

text \<open>
  What the dispatcher calls and this repository does not define, or defines as an HTTP
  call. Each answers from the state \<open>'w\<close> of the outside world and changes it.
  \<^item> \<open>FindOrCreateContact\<close> (the method of \<open>ContactService\<close> is not among the source
    files): the contact's primary key, or an error.
  \<^item> \<open>WhatsApp_SendMessage\<close>: \<open>whatsapp.Client.SendMessage\<close>; on success the list of the
    identifiers in \<open>resp.Messages\<close>.
  \<^item> \<open>UpdateLastMessageTime\<close> (not among the source files): its result is not used.
  \<^item> \<open>Now\<close>: \<open>time.Now()\<close>.
  \<^item> \<open>DB_write\<close>: the storage layer's answer to the next write: an error, or the
    primary key the database generates for a row that has none.
\<close>

record 'w Collaborators =
  FindOrCreateContact :: "'w \<Rightarrow> string \<Rightarrow> (error + uuid) \<times> 'w"
  WhatsApp_SendMessage :: "'w \<Rightarrow> MessageRequest \<Rightarrow> (error + string list) \<times> 'w"
  UpdateLastMessageTime :: "'w \<Rightarrow> string \<Rightarrow> time \<Rightarrow> 'w"
  Now :: "'w \<Rightarrow> time \<times> 'w"
  DB_write :: "'w \<Rightarrow> (error + uuid) \<times> 'w"

record 'w State =
  World :: 'w
  Messages :: "Message list"
  BroadcastRecipients :: "BroadcastRecipient list"
  Broadcasts :: "Broadcast list"

text \<open>\<open>time.Time.Unix\<close>, with instants counted from Go's zero \<open>time.Time{}\<close>.\<close>

definition Unix :: "time \<Rightarrow> int" where
  "Unix t = t div 1000000000 - 62135596800"

subsection \<open>SendMessage\<close>

definition SendMessage ::
  "'w Collaborators \<Rightarrow> 'w State \<Rightarrow> uuid \<Rightarrow> string \<Rightarrow> string \<Rightarrow> string \<Rightarrow>
   (error + Message) go \<times> 'w State" where
  "SendMessage env s userID to content messageType =
     (let waReq0 = \<lparr>MessagingProduct = ''whatsapp'', RecipientType = ''individual'', To = to,
                    Type = [], Text = None, Image = None\<rparr>;
          waReq = (if messageType = ''text'' then waReq0\<lparr>Type := ''text'', Text := Some content\<rparr>
                   else if messageType = ''image'' then waReq0\<lparr>Type := ''image'', Image := Some content\<rparr>
                   else waReq0\<lparr>Type := ''text'', Text := Some content\<rparr>)
      in case WhatsApp_SendMessage env (World s) waReq of
           (Inl err, w1) \<Rightarrow> (Returns (Inl err), s\<lparr>World := w1\<rparr>)
         | (Inr [], w1) \<Rightarrow> (Panics, s\<lparr>World := w1\<rparr>)
         | (Inr (resp_id # _), w1) \<Rightarrow>
             (let (now, w2) = Now env w1;
                  message = \<lparr>Message.ID = 0, UserID = userID, MessageID = resp_id,
                             Content = content, MessageType = messageType,
                             Direction = ''outgoing'', Status = ''sent'', Timestamp = now\<rparr>
              in case DB_write env w2 of
                   (Inl err, w3) \<Rightarrow> (Returns (Inl err), s\<lparr>World := w3\<rparr>)
                 | (Inr new_id, w3) \<Rightarrow>
                     (let message' = message\<lparr>Message.ID := new_id\<rparr>;
                          (now', w4) = Now env w3;
                          w5 = UpdateLastMessageTime env w4 to now'
                      in (Returns (Inr message'),
                          s\<lparr>World := w5, Messages := Messages s @ [message']\<rparr>))))"

subsection \<open>processBroadcastBatch\<close>

text \<open>
  \<open>s.sm.DB.Create(recipientModel)\<close>: the code discards the result, so a rejected write
  only leaves the row out.
\<close>

definition Create_recipientModel ::
  "'w Collaborators \<Rightarrow> 'w State \<Rightarrow> BroadcastRecipient \<Rightarrow> 'w State" where
  "Create_recipientModel env s recipientModel =
     (case DB_write env (World s) of
        (Inl err, w) \<Rightarrow> s\<lparr>World := w\<rparr>
      | (Inr new_id, w) \<Rightarrow>
          s\<lparr>World := w,
            BroadcastRecipients :=
              BroadcastRecipients s @ [recipientModel\<lparr>BroadcastRecipient.ID := new_id\<rparr>]\<rparr>)"

text \<open>
  The loop over the recipients of one batch. The broadcast is the struct behind the
  pointer: the counters are incremented in memory and returned.
\<close>

fun processBroadcastBatch ::
  "'w Collaborators \<Rightarrow> 'w State \<Rightarrow> Broadcast \<Rightarrow> string list \<Rightarrow>
   (error option \<times> 'w State \<times> Broadcast) go" where
  "processBroadcastBatch env s broadcast [] = Returns (None, s, broadcast)"
| "processBroadcastBatch env s broadcast (recipient # rest) =
     (let recipientModel = \<lparr>BroadcastRecipient.ID = 0, BroadcastID = Broadcast.ID broadcast,
                             ContactID = 0, Status = ''pending'', SentAt = None,
                             Error = [], MessageID = 0\<rparr>
      in case FindOrCreateContact env (World s) recipient of
           (Inl err, w1) \<Rightarrow>
             (let failed = recipientModel\<lparr>BroadcastRecipient.Status := ''failed'',
                                          Error := err_Error err\<rparr>;
                  s1 = Create_recipientModel env (s\<lparr>World := w1\<rparr>) failed
              in processBroadcastBatch env s1 broadcast rest)
         | (Inr contact_ID, w1) \<Rightarrow>
             (let resolved = recipientModel\<lparr>ContactID := contact_ID\<rparr>
              in case SendMessage env (s\<lparr>World := w1\<rparr>) (Broadcast.UserID broadcast) recipient
                        (Broadcast.Content broadcast) (Broadcast.MessageType broadcast) of
                   (Panics, s2) \<Rightarrow> Panics
                 | (Returns (Inl err), s2) \<Rightarrow>
                     (let failed = resolved\<lparr>BroadcastRecipient.Status := ''failed'',
                                            Error := err_Error err\<rparr>;
                          broadcast' = broadcast\<lparr>TotalFailed := TotalFailed broadcast + 1\<rparr>;
                          s3 = Create_recipientModel env s2 failed
                      in processBroadcastBatch env s3 broadcast' rest)
                 | (Returns (Inr message), s2) \<Rightarrow>
                     (let (now, w3) = Now env (World s2);
                          sent = resolved\<lparr>BroadcastRecipient.Status := ''sent'',
                                          BroadcastRecipient.SentAt := Some now,
                                          BroadcastRecipient.MessageID := Message.ID message\<rparr>;
                          broadcast' = broadcast\<lparr>TotalSent := TotalSent broadcast + 1\<rparr>;
                          s3 = Create_recipientModel env (s2\<lparr>World := w3\<rparr>) sent
                      in processBroadcastBatch env s3 broadcast' rest)))"

subsection \<open>BroadcastMessage\<close>

definition batchSize :: nat where
  "batchSize = 50"

text \<open>
  The loop \<open>for i := 0; i < len(recipients); i += batchSize\<close>. Its body hands the slice
  \<open>recipients[i:end]\<close> to \<open>process\<close>, which is \<open>processBroadcastBatch\<close> in
  \<open>BroadcastMessage\<close>; \<open>st\<close> is what the body changes.
\<close>

function BroadcastMessage_loop ::
  "('s \<Rightarrow> string list \<Rightarrow> 's go) \<Rightarrow> nat \<Rightarrow> string list \<Rightarrow> 's \<Rightarrow> 's go" where
  "BroadcastMessage_loop process i recipients st =
     (if i < length recipients
      then (let end = (if i + batchSize > length recipients then length recipients
                       else i + batchSize);
                batch = drop i (take end recipients)
            in case process st batch of
                 Panics \<Rightarrow> Panics
               | Returns st' \<Rightarrow> BroadcastMessage_loop process (i + batchSize) recipients st')
      else Returns st)"
  by pat_completeness auto
termination
  by (relation "measure (\<lambda>(process, i, recipients, st). length recipients - i)")
     (auto simp: batchSize_def)

declare BroadcastMessage_loop.simps [simp del]

text \<open>The body of that loop: an error of \<open>processBroadcastBatch\<close> is logged and dropped.\<close>

definition process_batch ::
  "'w Collaborators \<Rightarrow> 'w State \<times> Broadcast \<Rightarrow> string list \<Rightarrow> ('w State \<times> Broadcast) go" where
  "process_batch env st batch =
     (case processBroadcastBatch env (fst st) (snd st) batch of
        Panics \<Rightarrow> Panics
      | Returns (err, s', broadcast') \<Rightarrow> Returns (s', broadcast'))"

definition BroadcastMessage ::
  "'w Collaborators \<Rightarrow> 'w State \<Rightarrow> uuid \<Rightarrow> string list \<Rightarrow> string \<Rightarrow> string \<Rightarrow>
   (error option \<times> 'w State) go" where
  "BroadcastMessage env s userID recipients content messageType =
     (let (now, w1) = Now env (World s);
          broadcast = \<lparr>Broadcast.ID = 0, UserID = userID,
                       Name = ''Broadcast_'' @ Sprintf_d (Unix now),
                       Content = content, MessageType = messageType, MediaURL = [],
                       Status = ''sending'', ScheduledAt = None, SentAt = Some 0,
                       TotalSent = 0, TotalFailed = 0\<rparr>
      in case DB_write env w1 of
           (Inl err, w2) \<Rightarrow> Returns (Some err, s\<lparr>World := w2\<rparr>)
         | (Inr new_id, w2) \<Rightarrow>
             (let created = broadcast\<lparr>Broadcast.ID := new_id\<rparr>;
                  s1 = s\<lparr>World := w2, Broadcasts := Broadcasts s @ [created]\<rparr>
              in case BroadcastMessage_loop (process_batch env) 0 recipients (s1, created) of
                   Panics \<Rightarrow> Panics
                 | Returns (s2, b2) \<Rightarrow>
                     (let (now', w3) = Now env (World s2);
                          b3 = b2\<lparr>Broadcast.Status := ''sent'', Broadcast.SentAt := Some now'\<rparr>
                      in case DB_write env w3 of
                           (Inl err, w4) \<Rightarrow> Returns (Some err, s2\<lparr>World := w4\<rparr>)
                         | (Inr _, w4) \<Rightarrow>
                             (case Save Broadcast.ID True (Broadcasts s2) b3 of
                                Inl err \<Rightarrow> Returns (Some err, s2\<lparr>World := w4\<rparr>)
                              | Inr t \<Rightarrow> Returns (None, s2\<lparr>World := w4, Broadcasts := t\<rparr>)))))"

section \<open>BroadcastService\<close>

text \<open>
  \<open>BroadcastService\<close> reads and writes a broadcast with the fields below (string
  recipients, \<open>Message\<close>, \<open>ScheduleAt\<close>, \<open>SuccessCount\<close>, \<open>FailureCount\<close>,
  \<open>CompletedAt\<close>): the fields its functions and the test \<open>BroadcastModel\<close> of
  test/unit_test.go use. \<open>time.Parse\<close> is a parameter of \<open>UpdateBroadcast\<close>.
\<close>

record ServiceBroadcast =
  ID :: uuid
  Name :: string
  Message :: string
  Recipients :: "string list"
  Status :: string
  SuccessCount :: int
  FailureCount :: int
  UserID :: uuid
  CreatedAt :: time
  UpdatedAt :: time
  ScheduleAt :: "time option"
  SentAt :: "time option"
  CompletedAt :: "time option"

definition UpdateBroadcast ::
  "(string \<Rightarrow> error + time) \<Rightarrow> bool \<Rightarrow> time \<Rightarrow> ServiceBroadcast list \<Rightarrow> uuid \<Rightarrow>
   string \<Rightarrow> string \<Rightarrow> string list option \<Rightarrow> string \<Rightarrow>
   (error + ServiceBroadcast) \<times> ServiceBroadcast list" where
  "UpdateBroadcast Parse ok now db broadcastID name message recipients scheduleAt =
     (case First ID db broadcastID of
        Inl err \<Rightarrow> (Inl err, db)
      | Inr broadcast \<Rightarrow>
          (let b1 = (if name \<noteq> [] then broadcast\<lparr>Name := name\<rparr> else broadcast);
               b2 = (if message \<noteq> [] then b1\<lparr>Message := message\<rparr> else b1);
               b3 = (case recipients of None \<Rightarrow> b2 | Some rs \<Rightarrow> b2\<lparr>Recipients := rs\<rparr>)
           in case (if scheduleAt \<noteq> []
                    then (case Parse scheduleAt of
                            Inl err \<Rightarrow> Inl err
                          | Inr scheduleTime \<Rightarrow> Inr (b3\<lparr>ScheduleAt := Some scheduleTime\<rparr>))
                    else Inr b3) of
                Inl err \<Rightarrow> (Inl err, db)
              | Inr b4 \<Rightarrow>
                  (let b5 = b4\<lparr>UpdatedAt := now\<rparr>
                   in case Save ID ok db b5 of
                        Inl err \<Rightarrow> (Inl err, db)
                      | Inr db' \<Rightarrow> (Inr b5, db'))))"

text \<open>The loop of \<open>SendBroadcast\<close>: it counts every recipient as a success.\<close>

fun SendBroadcast_loop :: "string list \<Rightarrow> int \<Rightarrow> int" where
  "SendBroadcast_loop [] successCount = successCount"
| "SendBroadcast_loop (recipient # rest) successCount = SendBroadcast_loop rest (successCount + 1)"

definition SendBroadcast ::
  "bool \<Rightarrow> bool \<Rightarrow> time \<Rightarrow> time \<Rightarrow> ServiceBroadcast list \<Rightarrow> uuid \<Rightarrow>
   error option \<times> ServiceBroadcast list" where
  "SendBroadcast ok1 ok2 now1 now2 db broadcastID =
     (case First ID db broadcastID of
        Inl err \<Rightarrow> (Some err, db)
      | Inr broadcast \<Rightarrow>
          (let b1 = broadcast\<lparr>Status := ''sending'', SentAt := Some now1\<rparr>
           in case Save ID ok1 db b1 of
                Inl err \<Rightarrow> (Some err, db)
              | Inr db1 \<Rightarrow>
                  (let successCount = SendBroadcast_loop (Recipients b1) 0;
                       b2 = b1\<lparr>Status := ''completed'', SuccessCount := successCount,
                               FailureCount := int (length (Recipients b1)) - successCount,
                               CompletedAt := Some now2\<rparr>
                   in case Save ID ok2 db1 b2 of
                        Inl err \<Rightarrow> (Some err, db1)
                      | Inr db2 \<Rightarrow> (None, db2))))"

section \<open>TelegramBroadcastService\<close>

record TelegramBroadcast =
  ID :: uuid
  Name :: string
  Message :: string
  Recipients :: "int64 list"
  Status :: string
  SuccessCount :: int
  FailureCount :: int
  UserID :: uuid
  CreatedAt :: time
  UpdatedAt :: time
  SentAt :: "time option"
  CompletedAt :: "time option"

subsection \<open>ValidateRecipients\<close>

text \<open>
  The loop of \<open>ValidateRecipients\<close>, with the two slices it appends to as accumulators.
\<close>

fun ValidateRecipients_loop ::
  "int64 list \<Rightarrow> int64 list \<Rightarrow> string list \<Rightarrow> int64 list \<times> string list" where
  "ValidateRecipients_loop [] validRecipients errors = (validRecipients, errors)"
| "ValidateRecipients_loop (recipient # rest) validRecipients errors =
     (if sint recipient \<le> 0
      then ValidateRecipients_loop rest validRecipients
             (errors @ [''Invalid recipient ID: '' @ Sprintf_d (sint recipient)])
      else ValidateRecipients_loop rest (validRecipients @ [recipient]) errors)"

definition ValidateRecipients :: "int64 list \<Rightarrow> int64 list \<times> string list" where
  "ValidateRecipients recipients = ValidateRecipients_loop recipients [] []"

subsection \<open>Create, Get, Update\<close>

text \<open>
  The service functions take what the code reads from outside as leading arguments: the
  flag of each write, the identifier \<open>uuid.New()\<close> returns and each reading of
  \<open>time.Now()\<close>. They return the result of the Go function together with the table.
\<close>

definition CreateTelegramBroadcast ::
  "bool \<Rightarrow> uuid \<Rightarrow> time \<Rightarrow> time \<Rightarrow> TelegramBroadcast list \<Rightarrow>
   string \<Rightarrow> string \<Rightarrow> int64 list \<Rightarrow> uuid \<Rightarrow> (error + TelegramBroadcast) \<times> TelegramBroadcast list" where
  "CreateTelegramBroadcast ok new_id now1 now2 db name message recipients userID =
     (let broadcast = \<lparr>ID = new_id, Name = name, Message = message, Recipients = recipients,
                         Status = ''pending'', SuccessCount = 0, FailureCount = 0,
                         UserID = userID, CreatedAt = now1, UpdatedAt = now2,
                         SentAt = None, CompletedAt = None\<rparr>
      in case Create ID ok db broadcast of
           Inl err \<Rightarrow> (Inl err, db)
         | Inr db' \<Rightarrow> (Inr broadcast, db'))"

definition GetTelegramBroadcast :: "TelegramBroadcast list \<Rightarrow> uuid \<Rightarrow> error + TelegramBroadcast" where
  "GetTelegramBroadcast db broadcastID = First ID db broadcastID"

text \<open>
  \<open>UpdateTelegramBroadcast\<close>: the slice argument is \<open>None\<close> for Go's \<open>nil\<close>; a stored
  slice is a list (a nil and an empty stored slice both have length 0).
\<close>

definition UpdateTelegramBroadcast ::
  "bool \<Rightarrow> time \<Rightarrow> TelegramBroadcast list \<Rightarrow> uuid \<Rightarrow> string \<Rightarrow> string \<Rightarrow> int64 list option \<Rightarrow>
   (error + TelegramBroadcast) \<times> TelegramBroadcast list" where
  "UpdateTelegramBroadcast ok now db broadcastID name message recipients =
     (case First ID db broadcastID of
        Inl err \<Rightarrow> (Inl err, db)
      | Inr broadcast \<Rightarrow>
          (let b1 = (if name \<noteq> [] then broadcast\<lparr>Name := name\<rparr> else broadcast);
               b2 = (if message \<noteq> [] then b1\<lparr>Message := message\<rparr> else b1);
               b3 = (case recipients of None \<Rightarrow> b2 | Some rs \<Rightarrow> b2\<lparr>Recipients := rs\<rparr>);
               b4 = b3\<lparr>UpdatedAt := now\<rparr>
           in case Save ID ok db b4 of
                Inl err \<Rightarrow> (Inl err, db)
              | Inr db' \<Rightarrow> (Inr b4, db')))"

text \<open>
  \<open>DeleteTelegramBroadcast\<close>: a \<open>DELETE\<close> of the rows with that primary key; deleting no
  row is not an error.
\<close>

definition DeleteTelegramBroadcast ::
  "bool \<Rightarrow> TelegramBroadcast list \<Rightarrow> uuid \<Rightarrow> error option \<times> TelegramBroadcast list" where
  "DeleteTelegramBroadcast ok db broadcastID =
     (if \<not> ok then (Some ErrStorage, db)
      else (None, filter (\<lambda>r. ID r \<noteq> broadcastID) db))"

subsection \<open>SendTelegramBroadcast\<close>

text \<open>
  \<open>telegramService.SendMessage\<close> is an HTTP call: a collaborator that answers from the
  state \<open>'w\<close> of the outside world and changes it. \<open>None\<close> is Go's \<open>nil\<close> error.
\<close>

type_synonym 'w TelegramService = "'w \<Rightarrow> int64 \<Rightarrow> string \<Rightarrow> error option \<times> 'w"

text \<open>The loop over \<open>broadcast.Recipients\<close>, with the local \<open>successCount\<close>.\<close>

fun SendTelegramBroadcast_loop ::
  "'w TelegramService \<Rightarrow> string \<Rightarrow> int64 list \<Rightarrow> 'w \<Rightarrow> int \<Rightarrow> int \<times> 'w" where
  "SendTelegramBroadcast_loop telegramService message [] w successCount = (successCount, w)"
| "SendTelegramBroadcast_loop telegramService message (recipient # rest) w successCount =
     (case telegramService w recipient message of
        (Some err, w') \<Rightarrow> SendTelegramBroadcast_loop telegramService message rest w' successCount
      | (None, w') \<Rightarrow> SendTelegramBroadcast_loop telegramService message rest w' (successCount + 1))"

definition SendTelegramBroadcast ::
  "bool \<Rightarrow> bool \<Rightarrow> time \<Rightarrow> time \<Rightarrow> 'w TelegramService \<Rightarrow> TelegramBroadcast list \<Rightarrow> 'w \<Rightarrow> uuid \<Rightarrow>
   error option \<times> TelegramBroadcast list \<times> 'w" where
  "SendTelegramBroadcast ok1 ok2 now1 now2 telegramService db w broadcastID =
     (case First ID db broadcastID of
        Inl err \<Rightarrow> (Some err, db, w)
      | Inr broadcast \<Rightarrow>
          (let b1 = broadcast\<lparr>Status := ''sending'', SentAt := Some now1\<rparr>
           in case Save ID ok1 db b1 of
                Inl err \<Rightarrow> (Some err, db, w)
              | Inr db1 \<Rightarrow>
                  (let (successCount, w') =
                         SendTelegramBroadcast_loop telegramService (Message b1) (Recipients b1) w 0;
                       b2 = b1\<lparr>Status := ''completed'', SuccessCount := successCount,
                               FailureCount := int (length (Recipients b1)) - successCount,
                               CompletedAt := Some now2\<rparr>
                   in case Save ID ok2 db1 b2 of
                        Inl err \<Rightarrow> (Some err, db1, w')
                      | Inr db2 \<Rightarrow> (None, db2, w'))))"

subsection \<open>Cancel and Duplicate\<close>

definition CancelTelegramBroadcast ::
  "bool \<Rightarrow> time \<Rightarrow> TelegramBroadcast list \<Rightarrow> uuid \<Rightarrow> error option \<times> TelegramBroadcast list" where
  "CancelTelegramBroadcast ok now db broadcastID =
     (case First ID db broadcastID of
        Inl err \<Rightarrow> (Some err, db)
      | Inr broadcast \<Rightarrow>
          if Status broadcast \<noteq> ''pending''
          then (Some (Errorf ''can only cancel pending broadcasts''), db)
          else (let b1 = broadcast\<lparr>Status := ''cancelled'', UpdatedAt := now\<rparr>
                in case Save ID ok db b1 of
                     Inl err \<Rightarrow> (Some err, db)
                   | Inr db' \<Rightarrow> (None, db')))"

definition DuplicateTelegramBroadcast ::
  "bool \<Rightarrow> uuid \<Rightarrow> time \<Rightarrow> time \<Rightarrow> TelegramBroadcast list \<Rightarrow> uuid \<Rightarrow> uuid \<Rightarrow>
   (error + TelegramBroadcast) \<times> TelegramBroadcast list" where
  "DuplicateTelegramBroadcast ok new_id now1 now2 db broadcastID userID =
     (case First ID db broadcastID of
        Inl err \<Rightarrow> (Inl err, db)
      | Inr original \<Rightarrow>
          (let newBroadcast = \<lparr>ID = new_id, Name = Name original @ '' (Copy)'',
                                Message = Message original, Recipients = Recipients original,
                                Status = ''pending'', SuccessCount = 0, FailureCount = 0,
                                UserID = userID, CreatedAt = now1, UpdatedAt = now2,
                                SentAt = None, CompletedAt = None\<rparr>
           in case Create ID ok db newBroadcast of
                Inl err \<Rightarrow> (Inl err, db)
              | Inr db' \<Rightarrow> (Inr newBroadcast, db')))"

subsection \<open>Preview, Export, Import\<close>

text \<open>
  The map \<open>PreviewTelegramBroadcast\<close> returns, as a record of its six keys. A
  \<open>time.Duration\<close> is an \<open>int64\<close> of nanoseconds, so the product with \<open>time.Second\<close> is
  taken in 64 bits.
\<close>

record Preview =
  message :: string
  recipient_count :: int
  estimated_delivery :: time
  message_length :: int
  has_media :: bool
  has_links :: bool

definition Second :: int64 where
  "Second = 1000000000"

definition PreviewTelegramBroadcast :: "time \<Rightarrow> string \<Rightarrow> int64 list \<Rightarrow> error + Preview" where
  "PreviewTelegramBroadcast now msg recipients =
     Inr \<lparr>message = msg,
          recipient_count = int (length recipients),
          estimated_delivery = now + sint (word_of_nat (length recipients) * Second),
          message_length = int (length msg),
          has_media = False,
          has_links = False\<rparr>"

definition ExportTelegramBroadcastRecipients :: "TelegramBroadcast list \<Rightarrow> uuid \<Rightarrow> error + int64 list" where
  "ExportTelegramBroadcastRecipients db broadcastID =
     (case First ID db broadcastID of
        Inl err \<Rightarrow> Inl err
      | Inr broadcast \<Rightarrow> Inr (Recipients broadcast))"

definition ImportTelegramBroadcastRecipients ::
  "bool \<Rightarrow> time \<Rightarrow> TelegramBroadcast list \<Rightarrow> uuid \<Rightarrow> int64 list \<Rightarrow> error option \<times> TelegramBroadcast list" where
  "ImportTelegramBroadcastRecipients ok now db broadcastID recipients =
     (case First ID db broadcastID of
        Inl err \<Rightarrow> (Some err, db)
      | Inr broadcast \<Rightarrow>
          (let (validRecipients, errors) = ValidateRecipients recipients;
               b1 = broadcast\<lparr>Recipients := validRecipients, UpdatedAt := now\<rparr>
           in case Save ID ok db b1 of
                Inl err \<Rightarrow> (Some err, db)
              | Inr db' \<Rightarrow> (None, db')))"

subsection \<open>The statuses in the table\<close>

text \<open>
  The Telegram operations write the statuses \<open>pending\<close>, \<open>sending\<close>, \<open>completed\<close> and
  \<open>cancelled\<close>, and none of them writes \<open>draft\<close>. \<open>no_draft\<close> says that no stored
  campaign has the status \<open>draft\<close>; it holds of the empty table and every operation
  keeps it (lemmas \<open>no_draft_empty\<close> to \<open>no_draft_Delete\<close> below).
\<close>

definition no_draft :: "TelegramBroadcast list \<Rightarrow> bool" where
  "no_draft db = list_all (\<lambda>r. Status r \<noteq> ''draft'') db"

section \<open>Sample data\<close>

text \<open>Concrete rows for the instances of the theorems below.\<close>

definition campaign :: "string \<Rightarrow> int64 list \<Rightarrow> TelegramBroadcast" where
  "campaign st rs = \<lparr>ID = 1, Name = ''promo'', Message = ''hello'', Recipients = rs, Status = st,
                      SuccessCount = 0, FailureCount = 0, UserID = 2, CreatedAt = 0, UpdatedAt = 0,
                      SentAt = None, CompletedAt = None\<rparr>"

definition service_campaign :: "string \<Rightarrow> string list \<Rightarrow> ServiceBroadcast" where
  "service_campaign st rs =
     \<lparr>ServiceBroadcast.ID = 1, Name = ''promo'', Message = ''hello'', Recipients = rs, Status = st,
      SuccessCount = 0, FailureCount = 0, UserID = 2, CreatedAt = 0, UpdatedAt = 0,
      ScheduleAt = None, SentAt = None, CompletedAt = None\<rparr>"

text \<open>
  Two Telegram gateways that log the chat identifiers they are called with: one accepts
  every message, one rejects every message.
\<close>

definition gateway_accepts :: "int64 list TelegramService" where
  "gateway_accepts w chatID text = (None, w @ [chatID])"



text \<open>
  Collaborators of the batched dispatcher: the contact "unknown" cannot be resolved, every
  other contact resolves and every send is accepted; the clock and the store answer the
  same at every call. With them, the rows a run writes.
\<close>

definition sample_services :: "unit Collaborators" where
  "sample_services =
     \<lparr>FindOrCreateContact =
        (\<lambda>w phone. (if phone = ''unknown'' then Inl (ErrExternal ''contact not found'')
                     else Inr 7, w)),
      WhatsApp_SendMessage = (\<lambda>w req. (Inr [''wamid.1''], w)),
      UpdateLastMessageTime = (\<lambda>w phone t. w),
      Now = (\<lambda>w. (63871200000000000000, w)),
      DB_write = (\<lambda>w. (Inr 1, w))\<rparr>"

definition empty_state :: "unit State" where
  "empty_state = \<lparr>World = (), Messages = [], BroadcastRecipients = [], Broadcasts = []\<rparr>"

definition sample_broadcast :: Broadcast where
  "sample_broadcast =
     \<lparr>Broadcast.ID = 1, UserID = 2, Name = ''Broadcast_1735603200'', Content = ''hi'',
      MessageType = ''text'', MediaURL = [], Status = ''sending'', ScheduledAt = None,
      SentAt = Some 0, TotalSent = 0, TotalFailed = 0\<rparr>"

definition sent_message :: Message where
  "sent_message = \<lparr>Message.ID = 1, UserID = 2, MessageID = ''wamid.1'', Content = ''hi'',
                    MessageType = ''text'', Direction = ''outgoing'', Status = ''sent'',
                    Timestamp = 63871200000000000000\<rparr>"

definition sent_recipient :: BroadcastRecipient where
  "sent_recipient = \<lparr>BroadcastRecipient.ID = 1, BroadcastID = 1, ContactID = 7, Status = ''sent'',
                      SentAt = Some 63871200000000000000, Error = [], MessageID = 1\<rparr>"

definition failed_recipient :: BroadcastRecipient where
  "failed_recipient = \<lparr>BroadcastRecipient.ID = 1, BroadcastID = 1, ContactID = 0,
                        Status = ''failed'', SentAt = None, Error = ''contact not found'',
                        MessageID = 0\<rparr>"

section \<open>Properties\<close>

subsection \<open>ValidateRecipients\<close>

lemma ValidateRecipients_loop_eq:
  "ValidateRecipients_loop rs v e =
     (v @ filter (\<lambda>r. 0 < sint r) rs,
      e @ map (\<lambda>r. ''Invalid recipient ID: '' @ Sprintf_d (sint r)) (filter (\<lambda>r. sint r \<le> 0) rs))"
  by (induction rs arbitrary: v e) (simp_all add: not_le)

text \<open>
  C5. \<open>ValidateRecipients\<close> is total and returns two lists: the positive identifiers of
  the input in their input order, and one message per non-positive identifier, in input
  order too. Every input element is counted in exactly one of the two lists, so their
  lengths add up to the length of the input.
\<close>

theorem ValidateRecipients_partition:
  "ValidateRecipients rs =
     (filter (\<lambda>r. 0 < sint r) rs,
      map (\<lambda>r. ''Invalid recipient ID: '' @ Sprintf_d (sint r)) (filter (\<lambda>r. \<not> 0 < sint r) rs))
   \<and> length (fst (ValidateRecipients rs)) + length (snd (ValidateRecipients rs)) = length rs"
proof -
  have eq: "ValidateRecipients rs =
     (filter (\<lambda>r. 0 < sint r) rs,
      map (\<lambda>r. ''Invalid recipient ID: '' @ Sprintf_d (sint r)) (filter (\<lambda>r. \<not> 0 < sint r) rs))"
    by (simp add: ValidateRecipients_def ValidateRecipients_loop_eq not_less)
  have "length (filter (\<lambda>r. 0 < sint r) rs) + length (filter (\<lambda>r. \<not> 0 < sint r) rs) = length rs"
    by (rule sum_length_filter_compl)
  with eq show ?thesis by simp
qed

theorem ValidateRecipients_partition_witness:
  "ValidateRecipients [3, 0, - 2, 7] =
     ([3, 7], [''Invalid recipient ID: 0'', ''Invalid recipient ID: -2''])"
  using ValidateRecipients_partition [of "[3, 0, - 2, 7]"]
  by (simp add: Sprintf_d_def)

subsection \<open>The store\<close>

lemma First_key: "First key t k = Inr r \<Longrightarrow> key r = k"
  by (auto simp: First_def find_Some_iff split: option.splits)

lemma First_mem: "(k \<in> set (map key t)) = (\<exists>r. First key t k = Inr r)"
  by (induction t) (auto simp: First_def)

lemma First_map_same:
  "k \<in> set (map key t) \<Longrightarrow> key r = k \<Longrightarrow>
   First key (map (\<lambda>x. if key x = k then r else x) t) k = Inr r"
  by (induction t) (auto simp: First_def)

lemma First_map_other:
  "j \<noteq> k \<Longrightarrow> key r = k \<Longrightarrow> First key (map (\<lambda>x. if key x = k then r else x) t) j = First key t j"
  by (induction t) (auto simp: First_def)

lemma First_append_new:
  "k \<notin> set (map key t) \<Longrightarrow> key r = k \<Longrightarrow> First key (t @ [r]) k = Inr r"
  by (induction t) (auto simp: First_def)

lemma First_append_other:
  "j \<noteq> key r \<Longrightarrow> First key (t @ [r]) j = First key t j"
  by (induction t) (auto simp: First_def)

lemma First_Save_rows_same: "First key (Save_rows key t r) (key r) = Inr r"
  by (simp add: Save_rows_def First_map_same First_append_new)

lemma First_Save_rows_other: "j \<noteq> key r \<Longrightarrow> First key (Save_rows key t r) j = First key t j"
  by (simp add: Save_rows_def First_map_other First_append_other)

subsection \<open>Cancel\<close>

text \<open>
  What \<open>CancelTelegramBroadcast\<close> does, by the case of the stored campaign.
\<close>

lemma CancelTelegramBroadcast_cases:
  "((fst (CancelTelegramBroadcast ok now db k) = None) =
      (ok \<and> (\<exists>b. First ID db k = Inr b \<and> Status b = ''pending'')))
   \<and> (First ID db k = Inr b \<longrightarrow> Status b = ''pending'' \<longrightarrow> ok \<longrightarrow>
        First ID (snd (CancelTelegramBroadcast ok now db k)) k =
          Inr (b\<lparr>Status := ''cancelled'', UpdatedAt := now\<rparr>)
        \<and> (\<forall>j. j \<noteq> k \<longrightarrow> First ID (snd (CancelTelegramBroadcast ok now db k)) j = First ID db j))
   \<and> (First ID db k = Inr b \<longrightarrow> Status b \<noteq> ''pending'' \<longrightarrow>
        CancelTelegramBroadcast ok now db k =
          (Some (Errorf ''can only cancel pending broadcasts''), db))
   \<and> (fst (CancelTelegramBroadcast ok now db k) \<noteq> None \<longrightarrow>
        snd (CancelTelegramBroadcast ok now db k) = db)"
proof (cases "First ID db k")
  case (Inl e)
  then show ?thesis by (simp add: CancelTelegramBroadcast_def)
next
  case (Inr c)
  then have key: "ID c = k" by (rule First_key)
  let ?c' = "c\<lparr>Status := ''cancelled'', UpdatedAt := now\<rparr>"
  have same: "First ID (Save_rows ID db ?c') k = Inr ?c'"
    using First_Save_rows_same [of ID db ?c'] key by simp
  have other: "\<forall>j. j \<noteq> k \<longrightarrow> First ID (Save_rows ID db ?c') j = First ID db j"
    using First_Save_rows_other [of _ ID ?c' db] key by simp
  show ?thesis using Inr same other
    by (auto simp: CancelTelegramBroadcast_def Save_def)
qed

subsection \<open>Update\<close>

lemma UpdateTelegramBroadcast_found:
  assumes "First ID db k = Inr b"
  shows "UpdateTelegramBroadcast ok now db k name msg recipients =
     (if ok then
        (Inr (b\<lparr>Name := (if name = [] then Name b else name),
                  Message := (if msg = [] then Message b else msg),
                  Recipients := (case recipients of None \<Rightarrow> Recipients b | Some rs \<Rightarrow> rs),
                  UpdatedAt := now\<rparr>),
         Save_rows ID db (b\<lparr>Name := (if name = [] then Name b else name),
                  Message := (if msg = [] then Message b else msg),
                  Recipients := (case recipients of None \<Rightarrow> Recipients b | Some rs \<Rightarrow> rs),
                  UpdatedAt := now\<rparr>))
      else (Inl ErrStorage, db))"
  using assms by (cases recipients) (simp_all add: UpdateTelegramBroadcast_def Save_def Let_def)


lemma UpdateBroadcast_found:
  assumes "First ServiceBroadcast.ID db k = Inr b"
    and "scheduleAt = [] \<or> Parse scheduleAt = Inr t"
  shows "UpdateBroadcast Parse ok now db k name msg recipients scheduleAt =
     (if ok then
        (Inr (b\<lparr>ServiceBroadcast.Name := (if name = [] then ServiceBroadcast.Name b else name),
                ServiceBroadcast.Message := (if msg = [] then ServiceBroadcast.Message b else msg),
                ServiceBroadcast.Recipients :=
                  (case recipients of None \<Rightarrow> ServiceBroadcast.Recipients b | Some rs \<Rightarrow> rs),
                ScheduleAt := (if scheduleAt = [] then ScheduleAt b else Some t),
                ServiceBroadcast.UpdatedAt := now\<rparr>),
         Save_rows ServiceBroadcast.ID db
             (b\<lparr>ServiceBroadcast.Name := (if name = [] then ServiceBroadcast.Name b else name),
                ServiceBroadcast.Message := (if msg = [] then ServiceBroadcast.Message b else msg),
                ServiceBroadcast.Recipients :=
                  (case recipients of None \<Rightarrow> ServiceBroadcast.Recipients b | Some rs \<Rightarrow> rs),
                ScheduleAt := (if scheduleAt = [] then ScheduleAt b else Some t),
                ServiceBroadcast.UpdatedAt := now\<rparr>))
      else (Inl ErrStorage, db))"
  using assms by (cases recipients) (auto simp add: UpdateBroadcast_def Save_def Let_def)

lemma UpdateTelegramBroadcast_error:
  "fst (UpdateTelegramBroadcast ok now db k name msg recipients) = Inl e \<Longrightarrow>
   snd (UpdateTelegramBroadcast ok now db k name msg recipients) = db"
  by (cases "First ID db k") (auto simp: UpdateTelegramBroadcast_def Let_def Save_def split: if_splits)

lemma UpdateBroadcast_error:
  "fst (UpdateBroadcast Parse ok now db k name msg recipients scheduleAt) = Inl e \<Longrightarrow>
   snd (UpdateBroadcast Parse ok now db k name msg recipients scheduleAt) = db"
  by (cases "First ServiceBroadcast.ID db k"; cases "Parse scheduleAt")
     (auto simp: UpdateBroadcast_def Let_def Save_def split: if_splits)

text \<open>
  C10. When the campaign exists and the write is accepted, \<open>UpdateTelegramBroadcast\<close> and
  \<open>UpdateBroadcast\<close> return and store the campaign in which a non-empty name or message
  and a non-nil recipient list replace the stored ones, \<open>UpdatedAt\<close> is the current time
  (and, for \<open>UpdateBroadcast\<close>, a non-empty schedule that parses replaces \<open>ScheduleAt\<close>);
  every other field and every other campaign is unchanged. An empty argument leaves its
  field as it was, so a non-empty name or message never becomes empty. A call that
  returns an error leaves the table unchanged.
\<close>

theorem Update_keeps_unset_fields:
  "(First ID db k = Inr b \<longrightarrow> ok \<longrightarrow>
      (let b' = b\<lparr>Name := (if name = [] then Name b else name),
                   Message := (if msg = [] then Message b else msg),
                   Recipients := (case recipients of None \<Rightarrow> Recipients b | Some rs \<Rightarrow> rs),
                   UpdatedAt := now\<rparr>
       in fst (UpdateTelegramBroadcast ok now db k name msg recipients) = Inr b'
          \<and> First ID (snd (UpdateTelegramBroadcast ok now db k name msg recipients)) k = Inr b'
          \<and> (\<forall>j. j \<noteq> k \<longrightarrow>
                 First ID (snd (UpdateTelegramBroadcast ok now db k name msg recipients)) j =
                 First ID db j)
          \<and> (Name b \<noteq> [] \<longrightarrow> Name b' \<noteq> []) \<and> (Message b \<noteq> [] \<longrightarrow> Message b' \<noteq> [])))
   \<and> (\<forall>e. fst (UpdateTelegramBroadcast ok now db k name msg recipients) = Inl e \<longrightarrow>
          snd (UpdateTelegramBroadcast ok now db k name msg recipients) = db)
   \<and> (First ServiceBroadcast.ID sdb k = Inr sb \<longrightarrow> ok \<longrightarrow>
      scheduleAt = [] \<or> Parse scheduleAt = Inr t \<longrightarrow>
      (let sb' = sb\<lparr>ServiceBroadcast.Name := (if name = [] then ServiceBroadcast.Name sb else name),
                     ServiceBroadcast.Message :=
                       (if msg = [] then ServiceBroadcast.Message sb else msg),
                     ServiceBroadcast.Recipients :=
                       (case srecipients of None \<Rightarrow> ServiceBroadcast.Recipients sb | Some rs \<Rightarrow> rs),
                     ScheduleAt := (if scheduleAt = [] then ScheduleAt sb else Some t),
                     ServiceBroadcast.UpdatedAt := now\<rparr>
       in fst (UpdateBroadcast Parse ok now sdb k name msg srecipients scheduleAt) = Inr sb'
          \<and> First ServiceBroadcast.ID
                (snd (UpdateBroadcast Parse ok now sdb k name msg srecipients scheduleAt)) k = Inr sb'
          \<and> (\<forall>j. j \<noteq> k \<longrightarrow>
                 First ServiceBroadcast.ID
                   (snd (UpdateBroadcast Parse ok now sdb k name msg srecipients scheduleAt)) j =
                 First ServiceBroadcast.ID sdb j)
          \<and> (ServiceBroadcast.Name sb \<noteq> [] \<longrightarrow> ServiceBroadcast.Name sb' \<noteq> [])
          \<and> (ServiceBroadcast.Message sb \<noteq> [] \<longrightarrow> ServiceBroadcast.Message sb' \<noteq> [])))
   \<and> (\<forall>e. fst (UpdateBroadcast Parse ok now sdb k name msg srecipients scheduleAt) = Inl e \<longrightarrow>
          snd (UpdateBroadcast Parse ok now sdb k name msg srecipients scheduleAt) = sdb)"
proof -
  have tg: "First ID db k = Inr b \<longrightarrow> ok \<longrightarrow>
      (let b' = b\<lparr>Name := (if name = [] then Name b else name),
                   Message := (if msg = [] then Message b else msg),
                   Recipients := (case recipients of None \<Rightarrow> Recipients b | Some rs \<Rightarrow> rs),
                   UpdatedAt := now\<rparr>
       in fst (UpdateTelegramBroadcast ok now db k name msg recipients) = Inr b'
          \<and> First ID (snd (UpdateTelegramBroadcast ok now db k name msg recipients)) k = Inr b'
          \<and> (\<forall>j. j \<noteq> k \<longrightarrow>
                 First ID (snd (UpdateTelegramBroadcast ok now db k name msg recipients)) j =
                 First ID db j)
          \<and> (Name b \<noteq> [] \<longrightarrow> Name b' \<noteq> []) \<and> (Message b \<noteq> [] \<longrightarrow> Message b' \<noteq> []))"
  proof (intro impI)
    assume found: "First ID db k = Inr b" and ok
    define b' where "b' = b\<lparr>Name := (if name = [] then Name b else name),
                   Message := (if msg = [] then Message b else msg),
                   Recipients := (case recipients of None \<Rightarrow> Recipients b | Some rs \<Rightarrow> rs),
                   UpdatedAt := now\<rparr>"
    have key: "ID b' = k" using First_key [OF found] by (simp add: b'_def)
    have run: "UpdateTelegramBroadcast ok now db k name msg recipients = (Inr b', Save_rows ID db b')"
      using UpdateTelegramBroadcast_found [OF found, where ok = ok and now = now and name = name and msg = msg and recipients = recipients] \<open>ok\<close>
      by (simp add: b'_def)
    have same: "First ID (Save_rows ID db b') k = Inr b'"
      using First_Save_rows_same [of ID db b'] key by simp
    have other: "\<forall>j. j \<noteq> k \<longrightarrow> First ID (Save_rows ID db b') j = First ID db j"
      using First_Save_rows_other [of _ ID b' db] key by simp
    have nonempty: "(Name b \<noteq> [] \<longrightarrow> Name b' \<noteq> []) \<and> (Message b \<noteq> [] \<longrightarrow> Message b' \<noteq> [])"
      by (simp add: b'_def)
    show "let b' = b\<lparr>Name := (if name = [] then Name b else name),
                   Message := (if msg = [] then Message b else msg),
                   Recipients := (case recipients of None \<Rightarrow> Recipients b | Some rs \<Rightarrow> rs),
                   UpdatedAt := now\<rparr>
       in fst (UpdateTelegramBroadcast ok now db k name msg recipients) = Inr b'
          \<and> First ID (snd (UpdateTelegramBroadcast ok now db k name msg recipients)) k = Inr b'
          \<and> (\<forall>j. j \<noteq> k \<longrightarrow>
                 First ID (snd (UpdateTelegramBroadcast ok now db k name msg recipients)) j =
                 First ID db j)
          \<and> (Name b \<noteq> [] \<longrightarrow> Name b' \<noteq> []) \<and> (Message b \<noteq> [] \<longrightarrow> Message b' \<noteq> [])"
      unfolding Let_def b'_def [symmetric] using run same other nonempty by simp
  qed
  have sv: "First ServiceBroadcast.ID sdb k = Inr sb \<longrightarrow> ok \<longrightarrow>
      scheduleAt = [] \<or> Parse scheduleAt = Inr t \<longrightarrow>
      (let sb' = sb\<lparr>ServiceBroadcast.Name := (if name = [] then ServiceBroadcast.Name sb else name),
                     ServiceBroadcast.Message :=
                       (if msg = [] then ServiceBroadcast.Message sb else msg),
                     ServiceBroadcast.Recipients :=
                       (case srecipients of None \<Rightarrow> ServiceBroadcast.Recipients sb | Some rs \<Rightarrow> rs),
                     ScheduleAt := (if scheduleAt = [] then ScheduleAt sb else Some t),
                     ServiceBroadcast.UpdatedAt := now\<rparr>
       in fst (UpdateBroadcast Parse ok now sdb k name msg srecipients scheduleAt) = Inr sb'
          \<and> First ServiceBroadcast.ID
                (snd (UpdateBroadcast Parse ok now sdb k name msg srecipients scheduleAt)) k = Inr sb'
          \<and> (\<forall>j. j \<noteq> k \<longrightarrow>
                 First ServiceBroadcast.ID
                   (snd (UpdateBroadcast Parse ok now sdb k name msg srecipients scheduleAt)) j =
                 First ServiceBroadcast.ID sdb j)
          \<and> (ServiceBroadcast.Name sb \<noteq> [] \<longrightarrow> ServiceBroadcast.Name sb' \<noteq> [])
          \<and> (ServiceBroadcast.Message sb \<noteq> [] \<longrightarrow> ServiceBroadcast.Message sb' \<noteq> []))"
  proof (intro impI)
    assume found: "First ServiceBroadcast.ID sdb k = Inr sb" and ok
      and sched: "scheduleAt = [] \<or> Parse scheduleAt = Inr t"
    define sb' where "sb' = sb\<lparr>ServiceBroadcast.Name := (if name = [] then ServiceBroadcast.Name sb else name),
                     ServiceBroadcast.Message :=
                       (if msg = [] then ServiceBroadcast.Message sb else msg),
                     ServiceBroadcast.Recipients :=
                       (case srecipients of None \<Rightarrow> ServiceBroadcast.Recipients sb | Some rs \<Rightarrow> rs),
                     ScheduleAt := (if scheduleAt = [] then ScheduleAt sb else Some t),
                     ServiceBroadcast.UpdatedAt := now\<rparr>"
    have key: "ServiceBroadcast.ID sb' = k" using First_key [OF found] by (simp add: sb'_def)
    have run: "UpdateBroadcast Parse ok now sdb k name msg srecipients scheduleAt =
                 (Inr sb', Save_rows ServiceBroadcast.ID sdb sb')"
      using UpdateBroadcast_found [where Parse = Parse and scheduleAt = scheduleAt and t = t and db = sdb and k = k and b = sb and ok = ok and now = now and name = name and msg = msg and recipients = srecipients] found sched \<open>ok\<close>
      by (simp add: sb'_def)
    have same: "First ServiceBroadcast.ID (Save_rows ServiceBroadcast.ID sdb sb') k = Inr sb'"
      using First_Save_rows_same [of ServiceBroadcast.ID sdb sb'] key by simp
    have other: "\<forall>j. j \<noteq> k \<longrightarrow>
        First ServiceBroadcast.ID (Save_rows ServiceBroadcast.ID sdb sb') j =
        First ServiceBroadcast.ID sdb j"
      using First_Save_rows_other [of _ ServiceBroadcast.ID sb' sdb] key by simp
    have nonempty: "(ServiceBroadcast.Name sb \<noteq> [] \<longrightarrow> ServiceBroadcast.Name sb' \<noteq> [])
          \<and> (ServiceBroadcast.Message sb \<noteq> [] \<longrightarrow> ServiceBroadcast.Message sb' \<noteq> [])"
      by (simp add: sb'_def)
    show "let sb' = sb\<lparr>ServiceBroadcast.Name := (if name = [] then ServiceBroadcast.Name sb else name),
                     ServiceBroadcast.Message :=
                       (if msg = [] then ServiceBroadcast.Message sb else msg),
                     ServiceBroadcast.Recipients :=
                       (case srecipients of None \<Rightarrow> ServiceBroadcast.Recipients sb | Some rs \<Rightarrow> rs),
                     ScheduleAt := (if scheduleAt = [] then ScheduleAt sb else Some t),
                     ServiceBroadcast.UpdatedAt := now\<rparr>
       in fst (UpdateBroadcast Parse ok now sdb k name msg srecipients scheduleAt) = Inr sb'
          \<and> First ServiceBroadcast.ID
                (snd (UpdateBroadcast Parse ok now sdb k name msg srecipients scheduleAt)) k = Inr sb'
          \<and> (\<forall>j. j \<noteq> k \<longrightarrow>
                 First ServiceBroadcast.ID
                   (snd (UpdateBroadcast Parse ok now sdb k name msg srecipients scheduleAt)) j =
                 First ServiceBroadcast.ID sdb j)
          \<and> (ServiceBroadcast.Name sb \<noteq> [] \<longrightarrow> ServiceBroadcast.Name sb' \<noteq> [])
          \<and> (ServiceBroadcast.Message sb \<noteq> [] \<longrightarrow> ServiceBroadcast.Message sb' \<noteq> [])"
      unfolding Let_def sb'_def [symmetric] using run same other nonempty by simp
  qed
  show ?thesis
    using tg sv UpdateTelegramBroadcast_error [of ok now db k name msg recipients]
      UpdateBroadcast_error [of Parse ok now sdb k name msg srecipients scheduleAt]
    by blast
qed

theorem Update_keeps_unset_fields_witness:
  "fst (UpdateTelegramBroadcast True 9 [campaign ''pending'' [5]] 1 [] ''bye'' None) =
     Inr ((campaign ''pending'' [5])\<lparr>Message := ''bye'', UpdatedAt := 9\<rparr>)
   \<and> First ID (snd (UpdateTelegramBroadcast True 9 [campaign ''pending'' [5]] 1 [] ''bye'' None)) 1 =
     Inr ((campaign ''pending'' [5])\<lparr>Message := ''bye'', UpdatedAt := 9\<rparr>)
   \<and> fst (UpdateBroadcast (\<lambda>s. Inl ErrParse) True 9 [service_campaign ''pending'' [''+62'']] 1
            [] ''bye'' None []) =
     Inr ((service_campaign ''pending'' [''+62''])
            \<lparr>ServiceBroadcast.Message := ''bye'', ServiceBroadcast.UpdatedAt := 9\<rparr>)"
  using Update_keeps_unset_fields
    [where db = "[campaign ''pending'' [5]]" and k = 1 and b = "campaign ''pending'' [5]"
       and ok = True and name = "[]" and msg = "''bye''" and recipients = None and now = 9
       and sdb = "[service_campaign ''pending'' [''+62'']]"
       and sb = "service_campaign ''pending'' [''+62'']"
       and srecipients = None and scheduleAt = "[]" and Parse = "\<lambda>s. Inl ErrParse" and t = 0]
  by (simp add: campaign_def service_campaign_def First_def Let_def)

subsection \<open>Duplicate\<close>

lemma DuplicateTelegramBroadcast_found:
  assumes "First ID db k = Inr b"
  shows "DuplicateTelegramBroadcast ok new_id tc tu db k userID =
     (if ok \<and> new_id \<notin> set (map ID db)
      then (Inr \<lparr>ID = new_id, Name = Name b @ '' (Copy)'', Message = Message b,
                 Recipients = Recipients b, Status = ''pending'', SuccessCount = 0,
                 FailureCount = 0, UserID = userID, CreatedAt = tc, UpdatedAt = tu,
                 SentAt = None, CompletedAt = None\<rparr>,
            db @ [\<lparr>ID = new_id, Name = Name b @ '' (Copy)'', Message = Message b,
                 Recipients = Recipients b, Status = ''pending'', SuccessCount = 0,
                 FailureCount = 0, UserID = userID, CreatedAt = tc, UpdatedAt = tu,
                 SentAt = None, CompletedAt = None\<rparr>])
      else (Inl ErrStorage, db))"
  using assms by (simp add: DuplicateTelegramBroadcast_def Create_def Let_def)

text \<open>
  C7, as the code has it. For an existing campaign of any status, when the write is
  accepted and the identifier from \<open>uuid.New()\<close> is not taken,
  \<open>DuplicateTelegramBroadcast\<close> returns and stores a campaign with that identifier, status
  \<open>pending\<close>, both counters 0, no send or completion time, the caller's user, the
  source's message and recipients, and the source's name followed by " (Copy)"; every
  stored campaign, the source included, is as before. With an identifier that is taken
  the insert fails and nothing is stored.
\<close>

theorem DuplicateTelegramBroadcast_pending_copy:
  "(First ID db k = Inr b \<longrightarrow> ok \<longrightarrow> (\<forall>x. First ID db new_id \<noteq> Inr x) \<longrightarrow>
      fst (DuplicateTelegramBroadcast ok new_id tc tu db k userID) =
        Inr \<lparr>ID = new_id, Name = Name b @ '' (Copy)'', Message = Message b,
             Recipients = Recipients b, Status = ''pending'', SuccessCount = 0,
             FailureCount = 0, UserID = userID, CreatedAt = tc, UpdatedAt = tu,
             SentAt = None, CompletedAt = None\<rparr>
      \<and> First ID (snd (DuplicateTelegramBroadcast ok new_id tc tu db k userID)) new_id =
          fst (DuplicateTelegramBroadcast ok new_id tc tu db k userID)
      \<and> (\<forall>j. j \<noteq> new_id \<longrightarrow>
             First ID (snd (DuplicateTelegramBroadcast ok new_id tc tu db k userID)) j =
             First ID db j))
   \<and> (First ID db k = Inr b \<longrightarrow> First ID db new_id = Inr c \<longrightarrow>
        DuplicateTelegramBroadcast ok new_id tc tu db k userID = (Inl ErrStorage, db))"
proof -
  let ?nb = "\<lparr>ID = new_id, Name = Name b @ '' (Copy)'', Message = Message b,
             Recipients = Recipients b, Status = ''pending'', SuccessCount = 0,
             FailureCount = 0, UserID = userID, CreatedAt = tc, UpdatedAt = tu,
             SentAt = None, CompletedAt = None\<rparr>"
  have fresh: "(\<forall>x. First ID db new_id \<noteq> Inr x) = (new_id \<notin> set (map ID db))"
    using First_mem [of new_id ID db] by blast
  have same: "new_id \<notin> set (map ID db) \<Longrightarrow> First ID (db @ [?nb]) new_id = Inr ?nb"
    using First_append_new [of new_id ID db ?nb] by simp
  have other: "\<forall>j. j \<noteq> new_id \<longrightarrow> First ID (db @ [?nb]) j = First ID db j"
    using First_append_other [of _ ID ?nb db] by simp
  show ?thesis
    using fresh same other
    by (auto simp: DuplicateTelegramBroadcast_found)
qed

theorem DuplicateTelegramBroadcast_pending_copy_witness:
  "fst (DuplicateTelegramBroadcast True 7 3 4 [campaign ''completed'' [5]] 1 2) =
     Inr \<lparr>ID = 7, Name = ''promo (Copy)'', Message = ''hello'', Recipients = [5],
          Status = ''pending'', SuccessCount = 0, FailureCount = 0, UserID = 2,
          CreatedAt = 3, UpdatedAt = 4, SentAt = None, CompletedAt = None\<rparr>
   \<and> First ID (snd (DuplicateTelegramBroadcast True 7 3 4 [campaign ''completed'' [5]] 1 2)) 1 =
     Inr (campaign ''completed'' [5])"
  using DuplicateTelegramBroadcast_pending_copy
    [where db = "[campaign ''completed'' [5]]" and k = 1 and b = "campaign ''completed'' [5]"
       and ok = True and new_id = 7 and tc = 3 and tu = 4 and userID = 2
       and c = "campaign ''completed'' [5]"]
  by (simp add: campaign_def First_def)

text \<open>
  C7 as stated fails on the status: the copy of a completed campaign has status
  \<open>pending\<close>, not \<open>draft\<close>.
\<close>

theorem DuplicateTelegramBroadcast_draft_counterexample:
  "fst (DuplicateTelegramBroadcast True 7 3 4 [campaign ''completed'' [5]] 1 2) =
     Inr \<lparr>ID = 7, Name = ''promo (Copy)'', Message = ''hello'', Recipients = [5],
          Status = ''pending'', SuccessCount = 0, FailureCount = 0, UserID = 2,
          CreatedAt = 3, UpdatedAt = 4, SentAt = None, CompletedAt = None\<rparr>
   \<and> ''pending'' \<noteq> ''draft''"
  by (simp add: campaign_def First_def DuplicateTelegramBroadcast_def Create_def Let_def)

subsection \<open>Export and Import\<close>

lemma ImportTelegramBroadcastRecipients_found:
  assumes "First ID db k = Inr b"
  shows "ImportTelegramBroadcastRecipients ok now db k rs =
     (if ok
      then (None, Save_rows ID db (b\<lparr>Recipients := filter (\<lambda>r. 0 < sint r) rs, UpdatedAt := now\<rparr>))
      else (Some ErrStorage, db))"
  using assms
  by (simp add: ImportTelegramBroadcastRecipients_def ValidateRecipients_def
      ValidateRecipients_loop_eq Save_def)

text \<open>
  C6, as the code has it. For an existing campaign, Export returns the stored recipient
  list; importing that list back (the write accepted) stores the positive identifiers of
  it, in order, and sets \<open>UpdatedAt\<close>. A second Export returns the first one's list if
  and only if every stored recipient is positive.
\<close>

theorem Export_Import_keeps_valid_recipients:
  "First ID db k = Inr b \<longrightarrow>
     ExportTelegramBroadcastRecipients db k = Inr (Recipients b)
     \<and> (ok \<longrightarrow>
          fst (ImportTelegramBroadcastRecipients ok now db k (Recipients b)) = None
          \<and> First ID (snd (ImportTelegramBroadcastRecipients ok now db k (Recipients b))) k =
              Inr (b\<lparr>Recipients := filter (\<lambda>r. 0 < sint r) (Recipients b), UpdatedAt := now\<rparr>)
          \<and> ExportTelegramBroadcastRecipients
                (snd (ImportTelegramBroadcastRecipients ok now db k (Recipients b))) k =
              Inr (filter (\<lambda>r. 0 < sint r) (Recipients b))
          \<and> ((ExportTelegramBroadcastRecipients
                 (snd (ImportTelegramBroadcastRecipients ok now db k (Recipients b))) k =
               ExportTelegramBroadcastRecipients db k) =
              (\<forall>r \<in> set (Recipients b). 0 < sint r)))"
proof (intro impI)
  assume found: "First ID db k = Inr b"
  let ?b' = "b\<lparr>Recipients := filter (\<lambda>r. 0 < sint r) (Recipients b), UpdatedAt := now\<rparr>"
  have key: "ID ?b' = k" using First_key [OF found] by simp
  have same: "First ID (Save_rows ID db ?b') k = Inr ?b'"
    using First_Save_rows_same [of ID db ?b'] key by simp
  have ident: "(filter (\<lambda>r. 0 < sint r) (Recipients b) = Recipients b) =
               (\<forall>r \<in> set (Recipients b). 0 < sint r)"
    by (rule filter_id_conv)
  show "ExportTelegramBroadcastRecipients db k = Inr (Recipients b)
     \<and> (ok \<longrightarrow>
          fst (ImportTelegramBroadcastRecipients ok now db k (Recipients b)) = None
          \<and> First ID (snd (ImportTelegramBroadcastRecipients ok now db k (Recipients b))) k =
              Inr ?b'
          \<and> ExportTelegramBroadcastRecipients
                (snd (ImportTelegramBroadcastRecipients ok now db k (Recipients b))) k =
              Inr (filter (\<lambda>r. 0 < sint r) (Recipients b))
          \<and> ((ExportTelegramBroadcastRecipients
                 (snd (ImportTelegramBroadcastRecipients ok now db k (Recipients b))) k =
               ExportTelegramBroadcastRecipients db k) =
              (\<forall>r \<in> set (Recipients b). 0 < sint r)))"
    using found same ident
    by (simp add: ImportTelegramBroadcastRecipients_found ExportTelegramBroadcastRecipients_def)
qed

theorem Export_Import_keeps_valid_recipients_witness:
  "ExportTelegramBroadcastRecipients [campaign ''pending'' [3, 5]] 1 = Inr [3, 5]
   \<and> fst (ImportTelegramBroadcastRecipients True 9 [campaign ''pending'' [3, 5]] 1 [3, 5]) = None
   \<and> ExportTelegramBroadcastRecipients
        (snd (ImportTelegramBroadcastRecipients True 9 [campaign ''pending'' [3, 5]] 1 [3, 5])) 1 =
      Inr [3, 5]"
  using Export_Import_keeps_valid_recipients
    [where db = "[campaign ''pending'' [3, 5]]" and k = 1 and b = "campaign ''pending'' [3, 5]"
       and ok = True and now = 9]
  by (simp add: campaign_def First_def)

text \<open>
  C6 as stated fails for a campaign created with the recipients 0 and 5 (Create does not
  validate): Export returns both, Import of them stores only 5.
\<close>

theorem Export_Import_counterexample:
  "snd (CreateTelegramBroadcast True 1 0 0 [] ''promo'' ''hello'' [0, 5] 2) =
     [campaign ''pending'' [0, 5]]
   \<and> ExportTelegramBroadcastRecipients [campaign ''pending'' [0, 5]] 1 = Inr [0, 5]
   \<and> fst (ImportTelegramBroadcastRecipients True 9 [campaign ''pending'' [0, 5]] 1 [0, 5]) = None
   \<and> ExportTelegramBroadcastRecipients
        (snd (ImportTelegramBroadcastRecipients True 9 [campaign ''pending'' [0, 5]] 1 [0, 5])) 1 =
      Inr [5]
   \<and> set [5 :: int64] \<noteq> set [0, 5]"
  by (simp add: campaign_def First_def CreateTelegramBroadcast_def Create_def
      ExportTelegramBroadcastRecipients_def ImportTelegramBroadcastRecipients_def
      ValidateRecipients_def Save_def Save_rows_def Let_def)

subsection \<open>Preview\<close>

lemma Duration_exact:
  assumes "n < 9223372037"
  shows "sint (word_of_nat n * Second) = int n * 1000000000"
proof -
  have a: "(word_of_nat n * Second :: int64) = word_of_int (int n * 1000000000)"
    by (simp add: Second_def)
  have b: "sint (word_of_int (int n * 1000000000) :: int64) =
           signed_take_bit (LENGTH(64) - 1) (int n * 1000000000)"
    by (rule sint_sbintrunc')
  have c: "signed_take_bit (LENGTH(64) - 1) (int n * 1000000000) = int n * 1000000000"
    using assms by (intro signed_take_bit_int_eq_self) simp_all
  show ?thesis unfolding a b c ..
qed

text \<open>
  C9. \<open>PreviewTelegramBroadcast\<close> takes and returns no table. It never fails, and its
  result has the number of recipients, the length of the message in bytes and, as
  estimated delivery, the current time plus the 64-bit product of the number of recipients
  and one second: exactly that many seconds for fewer than 9223372037 recipients.
\<close>

theorem PreviewTelegramBroadcast_counts:
  "\<exists>p. PreviewTelegramBroadcast now msg rs = Inr p
       \<and> message p = msg
       \<and> recipient_count p = int (length rs)
       \<and> message_length p = int (length msg)
       \<and> estimated_delivery p = now + sint (word_of_nat (length rs) * Second)
       \<and> (length rs < 9223372037 \<longrightarrow>
            estimated_delivery p = now + int (length rs) * 1000000000)"
  by (simp add: PreviewTelegramBroadcast_def Duration_exact)

theorem PreviewTelegramBroadcast_counts_witness:
  "PreviewTelegramBroadcast 100 ''hello'' [3, 5] =
     Inr \<lparr>message = ''hello'', recipient_count = 2, estimated_delivery = 2000000100,
          message_length = 5, has_media = False, has_links = False\<rparr>"
  using PreviewTelegramBroadcast_counts [of 100 "''hello''" "[3, 5]"]
  by (auto simp: PreviewTelegramBroadcast_def)

subsection \<open>Dispatch without batches\<close>

text \<open>
  The loop is a left-to-right pass: its state after the first recipients of a list is the
  state from which it goes on with the others.
\<close>

lemma SendTelegramBroadcast_loop_append:
  "SendTelegramBroadcast_loop tg msg (xs @ ys) w n =
     SendTelegramBroadcast_loop tg msg ys (snd (SendTelegramBroadcast_loop tg msg xs w n))
       (fst (SendTelegramBroadcast_loop tg msg xs w n))"
  by (induction xs arbitrary: w n) (auto split: prod.splits option.splits)

lemma SendTelegramBroadcast_loop_bounds:
  "n \<le> fst (SendTelegramBroadcast_loop tg msg rs w n)
   \<and> fst (SendTelegramBroadcast_loop tg msg rs w n) \<le> n + int (length rs)"
proof (induction rs arbitrary: w n)
  case Nil
  show ?case by simp
next
  case (Cons r rs)
  obtain e w' where step: "tg w r msg = (e, w')" by (cases "tg w r msg")
  show ?case
  proof (cases e)
    case None
    with step Cons [of "n + 1" w'] show ?thesis by simp
  next
    case (Some err)
    with step Cons [of n w'] show ?thesis by simp
  qed
qed

lemma SendBroadcast_loop_eq: "SendBroadcast_loop rs n = n + int (length rs)"
  by (induction rs arbitrary: n) simp_all

lemma SendTelegramBroadcast_found:
  assumes "First ID db k = Inr b"
  shows "SendTelegramBroadcast ok1 ok2 tc tu tg db w k =
     (if \<not> ok1 then (Some ErrStorage, db, w)
      else if \<not> ok2
      then (Some ErrStorage, Save_rows ID db (b\<lparr>Status := ''sending'', SentAt := Some tc\<rparr>),
            snd (SendTelegramBroadcast_loop tg (Message b) (Recipients b) w 0))
      else (None,
            Save_rows ID (Save_rows ID db (b\<lparr>Status := ''sending'', SentAt := Some tc\<rparr>))
              (b\<lparr>SentAt := Some tc, Status := ''completed'',
                 SuccessCount := fst (SendTelegramBroadcast_loop tg (Message b) (Recipients b) w 0),
                 FailureCount := int (length (Recipients b)) -
                    fst (SendTelegramBroadcast_loop tg (Message b) (Recipients b) w 0),
                 CompletedAt := Some tu\<rparr>),
            snd (SendTelegramBroadcast_loop tg (Message b) (Recipients b) w 0)))"
  using assms
  by (simp add: SendTelegramBroadcast_def Save_def Let_def split: prod.splits)

lemma SendBroadcast_found:
  assumes "First ServiceBroadcast.ID db k = Inr b"
  shows "SendBroadcast ok1 ok2 tc tu db k =
     (if \<not> ok1 then (Some ErrStorage, db)
      else if \<not> ok2
      then (Some ErrStorage,
            Save_rows ServiceBroadcast.ID db
              (b\<lparr>ServiceBroadcast.Status := ''sending'', ServiceBroadcast.SentAt := Some tc\<rparr>))
      else (None,
            Save_rows ServiceBroadcast.ID
              (Save_rows ServiceBroadcast.ID db
                 (b\<lparr>ServiceBroadcast.Status := ''sending'', ServiceBroadcast.SentAt := Some tc\<rparr>))
              (b\<lparr>ServiceBroadcast.SentAt := Some tc, ServiceBroadcast.Status := ''completed'',
                 ServiceBroadcast.SuccessCount := int (length (ServiceBroadcast.Recipients b)),
                 ServiceBroadcast.FailureCount := 0,
                 ServiceBroadcast.CompletedAt := Some tu\<rparr>)))"
  using assms
  by (simp add: SendBroadcast_def Save_def Let_def SendBroadcast_loop_eq)

lemma Send_not_found:
  "First ID db k = Inl e \<Longrightarrow> SendTelegramBroadcast ok1 ok2 tc tu tg db w k = (Some e, db, w)"
  "First ServiceBroadcast.ID sdb k = Inl e \<Longrightarrow> SendBroadcast ok1 ok2 tc tu sdb k = (Some e, sdb)"
  by (simp_all add: SendTelegramBroadcast_def SendBroadcast_def)

subsection \<open>The batched dispatcher\<close>

lemma processBroadcastBatch_counters:
  "processBroadcastBatch env s b rs = Returns (e, s', b') \<Longrightarrow>
     TotalSent b \<le> TotalSent b' \<and> TotalFailed b \<le> TotalFailed b'
     \<and> TotalSent b' + TotalFailed b' \<le> TotalSent b + TotalFailed b + int (length rs)"
proof (induction rs arbitrary: s b)
  case Nil
  then show ?case by simp
next
  case (Cons r rs)
  obtain c w1 where res: "FindOrCreateContact env (World s) r = (c, w1)"
    by (cases "FindOrCreateContact env (World s) r")
  show ?case
  proof (cases c)
    case (Inl err)
    with res Cons.prems Cons.IH show ?thesis
      by (fastforce simp: Let_def)
  next
    case (Inr contact_ID)
    obtain m s2 where snd: "SendMessage env (s\<lparr>World := w1\<rparr>) (Broadcast.UserID b) r
        (Broadcast.Content b) (Broadcast.MessageType b) = (m, s2)"
      by (cases "SendMessage env (s\<lparr>World := w1\<rparr>) (Broadcast.UserID b) r
        (Broadcast.Content b) (Broadcast.MessageType b)")
    show ?thesis
    proof (cases m)
      case Panics
      with res Inr snd Cons.prems show ?thesis by simp
    next
      case (Returns x)
      show ?thesis
      proof (cases x)
        case (Inl err)
        with res Inr snd Returns Cons.prems
        have "processBroadcastBatch env
                (Create_recipientModel env s2
                  \<lparr>BroadcastRecipient.ID = 0, BroadcastID = Broadcast.ID b, ContactID = contact_ID,
                   Status = ''failed'', SentAt = None, Error = err_Error err, MessageID = 0\<rparr>)
                (b\<lparr>TotalFailed := TotalFailed b + 1\<rparr>) rs = Returns (e, s', b')"
          by (simp add: Let_def)
        from Cons.IH [OF this] show ?thesis by simp
      next
        case (Inr message)
        obtain now w3 where nw: "Now env (World s2) = (now, w3)" by (cases "Now env (World s2)")
        with res \<open>c = Inr contact_ID\<close> snd Returns Inr Cons.prems
        have "processBroadcastBatch env
                (Create_recipientModel env (s2\<lparr>World := w3\<rparr>)
                  \<lparr>BroadcastRecipient.ID = 0, BroadcastID = Broadcast.ID b, ContactID = contact_ID,
                   Status = ''sent'', SentAt = Some now, Error = [], MessageID = Message.ID message\<rparr>)
                (b\<lparr>TotalSent := TotalSent b + 1\<rparr>) rs = Returns (e, s', b')"
          by (simp add: Let_def)
        from Cons.IH [OF this] show ?thesis by simp
      qed
    qed
  qed
qed

lemma processBroadcastBatch_append:
  "processBroadcastBatch env s b (xs @ ys) =
     (case processBroadcastBatch env s b xs of
        Panics \<Rightarrow> Panics
      | Returns (e, s', b') \<Rightarrow> processBroadcastBatch env s' b' ys)"
  by (induction xs arbitrary: s b)
     (simp_all add: Let_def split: prod.splits sum.splits go.splits)

lemma process_batch_append:
  "process_batch env st (xs @ ys) =
     (case process_batch env st xs of
        Panics \<Rightarrow> Panics
      | Returns st' \<Rightarrow> process_batch env st' ys)"
  by (simp add: process_batch_def processBroadcastBatch_append split: go.splits prod.splits)

lemma process_batch_Nil: "process_batch env st [] = Returns st"
  by (simp add: process_batch_def)

lemma batch_slice:
  "i < length rs \<Longrightarrow>
   drop i (take (if i + batchSize > length rs then length rs else i + batchSize) rs) =
     take batchSize (drop i rs)"
  by (auto simp: drop_take min_def)

lemma BroadcastMessage_loop_sequential:
  "BroadcastMessage_loop (process_batch env) i rs st = process_batch env st (drop i rs)"
proof (induction "process_batch env" i rs st rule: BroadcastMessage_loop.induct)
  case (1 i rs st)
  show ?case
  proof (cases "i < length rs")
    case False
    then show ?thesis
      by (subst BroadcastMessage_loop.simps) (simp add: process_batch_Nil)
  next
    case True
    let ?batch = "take batchSize (drop i rs)"
    have "drop (i + batchSize) rs = drop batchSize (drop i rs)"
      by (simp add: add.commute)
    then have split: "drop i rs = ?batch @ drop (i + batchSize) rs"
      by (simp only: append_take_drop_id)
    have seq: "process_batch env st (drop i rs) =
        (case process_batch env st ?batch of
           Panics \<Rightarrow> Panics
         | Returns st' \<Rightarrow> process_batch env st' (drop (i + batchSize) rs))"
      using process_batch_append [of env st ?batch "drop (i + batchSize) rs"] split by simp
    show ?thesis
    proof (cases "process_batch env st ?batch")
      case Panics
      with True seq show ?thesis
        by (subst BroadcastMessage_loop.simps) (simp add: batch_slice Let_def)
    next
      case (Returns st')
      have "BroadcastMessage_loop (process_batch env) (i + batchSize) rs st' =
            process_batch env st' (drop (i + batchSize) rs)"
        using "1" [OF True refl refl, of st'] Returns True by (simp add: batch_slice)
      with True seq Returns show ?thesis
        by (subst BroadcastMessage_loop.simps) (simp add: batch_slice Let_def)
    qed
  qed
qed

text \<open>
  One step of the loop on a recipient that cannot be resolved, for any collaborators: the
  failed delivery record with the resolver's error text is handed to the store and the
  loop goes on with the rest of the batch, the broadcast and its counters as they were.
\<close>

lemma processBroadcastBatch_unresolved_step:
  "FindOrCreateContact env (World s) recipient = (Inl err, w) \<Longrightarrow>
   processBroadcastBatch env s broadcast (recipient # rest) =
     processBroadcastBatch env
       (Create_recipientModel env (s\<lparr>World := w\<rparr>)
          \<lparr>BroadcastRecipient.ID = 0, BroadcastID = Broadcast.ID broadcast, ContactID = 0,
           Status = ''failed'', SentAt = None, Error = err_Error err, MessageID = 0\<rparr>)
       broadcast rest"
  by (simp add: Let_def)

text \<open>
  C4 at a batch whose first recipient cannot be resolved. The code writes the failed
  delivery record with the resolver's error text and goes on to send to the second
  recipient, but \<open>TotalFailed\<close> is still 0 afterwards: the branch of the resolution
  failure has no \<open>broadcast.TotalFailed++\<close>, unlike the branch of the send failure.
\<close>

theorem processBroadcastBatch_resolution_failure_not_counted:
  "processBroadcastBatch sample_services empty_state sample_broadcast [''unknown'', ''+62811''] =
     Returns (None,
       \<lparr>World = (), Messages = [sent_message],
        BroadcastRecipients = [failed_recipient, sent_recipient], Broadcasts = []\<rparr>,
       \<lparr>Broadcast.ID = 1, UserID = 2, Name = ''Broadcast_1735603200'', Content = ''hi'',
        MessageType = ''text'', MediaURL = [], Status = ''sending'', ScheduledAt = None,
        SentAt = Some 0, TotalSent = 1, TotalFailed = 0\<rparr>)"
  by (simp add: sample_services_def empty_state_def sample_broadcast_def sent_message_def
      sent_recipient_def failed_recipient_def SendMessage_def Create_recipientModel_def Let_def)

lemma batches_of_120:
  assumes "length rs = 120"
  shows "BroadcastMessage_loop (\<lambda>acc batch. Returns (acc @ [batch])) 0 rs [] =
           Returns [take 50 rs, take 50 (drop 50 rs), drop 100 rs]
         \<and> map length [take 50 rs, take 50 (drop 50 rs), drop 100 rs] = [50, 50, 20]
         \<and> concat [take 50 rs, take 50 (drop 50 rs), drop 100 rs] = rs"
proof -
  have run: "BroadcastMessage_loop (\<lambda>acc batch. Returns (acc @ [batch])) 0 rs [] =
           Returns [take 50 rs, take 50 (drop 50 rs), drop 100 rs]"
    using assms
    apply (subst BroadcastMessage_loop.simps)
    apply (simp add: batchSize_def)
    apply (subst BroadcastMessage_loop.simps)
    apply (simp add: batchSize_def drop_take)
    apply (subst BroadcastMessage_loop.simps)
    apply (simp add: batchSize_def)
    apply (subst BroadcastMessage_loop.simps)
    apply (simp add: batchSize_def)
    done
  have "take 50 rs @ take 50 (drop 50 rs) @ drop 100 rs = rs"
  proof -
    have "take 50 (drop 50 rs) @ drop 100 rs = drop 50 rs"
      using append_take_drop_id [of 50 "drop 50 rs"] by simp
    then show ?thesis by simp
  qed
  with run assms show ?thesis by simp
qed

lemma processBroadcastBatch_sample_resolved:
  "processBroadcastBatch sample_services
     \<lparr>World = (), Messages = ms, BroadcastRecipients = brs, Broadcasts = bs\<rparr>
     (sample_broadcast\<lparr>TotalSent := c\<rparr>) (replicate n ''+62811'') =
     Returns (None,
       \<lparr>World = (), Messages = ms @ replicate n sent_message,
        BroadcastRecipients = brs @ replicate n sent_recipient, Broadcasts = bs\<rparr>,
       sample_broadcast\<lparr>TotalSent := c + int n\<rparr>)"
proof (induction n arbitrary: ms brs c)
  case 0
  show ?case by simp
next
  case (Suc n)
  have step: "processBroadcastBatch sample_services
                \<lparr>World = (), Messages = ms, BroadcastRecipients = brs, Broadcasts = bs\<rparr>
                (sample_broadcast\<lparr>TotalSent := c\<rparr>) (''+62811'' # replicate n ''+62811'') =
              processBroadcastBatch sample_services
                \<lparr>World = (), Messages = ms @ [sent_message],
                 BroadcastRecipients = brs @ [sent_recipient], Broadcasts = bs\<rparr>
                (sample_broadcast\<lparr>TotalSent := c + 1\<rparr>) (replicate n ''+62811'')"
    by (simp add: sample_services_def sample_broadcast_def sent_message_def
        sent_recipient_def SendMessage_def Create_recipientModel_def Let_def)
  show ?case
    unfolding replicate_Suc step Suc.IH by simp
qed

lemma processBroadcastBatch_sample_unresolved:
  "Broadcast.ID b = 1 \<Longrightarrow>
   processBroadcastBatch sample_services
     \<lparr>World = (), Messages = ms, BroadcastRecipients = brs, Broadcasts = bs\<rparr> b [''unknown''] =
     Returns (None,
       \<lparr>World = (), Messages = ms, BroadcastRecipients = brs @ [failed_recipient],
        Broadcasts = bs\<rparr>, b)"
  by (simp add: sample_services_def failed_recipient_def Create_recipientModel_def Let_def)

text \<open>
  C8 at 120 recipients of which the last cannot be resolved. The three batches are
  processed as one sequential run (\<open>BroadcastMessage_loop_sequential\<close>,
  \<open>batches_of_120\<close>), and all 120 delivery records are written, but the stored counters
  are 119 and 0: they sum to 119, not 120, because the resolution failure is not counted.
\<close>

theorem BroadcastMessage_120_recipients_counts_119:
  "BroadcastMessage sample_services empty_state 2 (replicate 119 ''+62811'' @ [''unknown''])
     ''hi'' ''text'' =
   Returns (None,
     \<lparr>World = (), Messages = replicate 119 sent_message,
      BroadcastRecipients = replicate 119 sent_recipient @ [failed_recipient],
      Broadcasts = [\<lparr>Broadcast.ID = 1, UserID = 2, Name = ''Broadcast_1735603200'',
                     Content = ''hi'', MessageType = ''text'', MediaURL = [],
                     Status = ''sent'', ScheduledAt = None, SentAt = Some 63871200000000000000,
                     TotalSent = 119, TotalFailed = 0\<rparr>]\<rparr>)
   \<and> length (replicate 119 ''+62811'' @ [''unknown'']) = 120"
proof -
  let ?rs = "replicate 119 ''+62811'' @ [''unknown'']"
  let ?s1 = "\<lparr>World = (), Messages = [], BroadcastRecipients = [],
              Broadcasts = [sample_broadcast]\<rparr>"
  have sb0: "sample_broadcast\<lparr>TotalSent := 0\<rparr> = sample_broadcast"
    by (simp add: sample_broadcast_def)
  have resolved: "processBroadcastBatch sample_services ?s1 sample_broadcast
                    (replicate 119 ''+62811'') =
        Returns (None,
          \<lparr>World = (), Messages = replicate 119 sent_message,
           BroadcastRecipients = replicate 119 sent_recipient,
           Broadcasts = [sample_broadcast]\<rparr>,
          sample_broadcast\<lparr>TotalSent := 119\<rparr>)"
    using processBroadcastBatch_sample_resolved [of "[]" "[]" "[sample_broadcast]" 0 119]
    unfolding sb0 by simp
  have batch: "process_batch sample_services (?s1, sample_broadcast) ?rs =
        Returns (\<lparr>World = (), Messages = replicate 119 sent_message,
           BroadcastRecipients = replicate 119 sent_recipient @ [failed_recipient],
           Broadcasts = [sample_broadcast]\<rparr>,
          sample_broadcast\<lparr>TotalSent := 119\<rparr>)"
  proof -
    have unresolved: "processBroadcastBatch sample_services
          \<lparr>World = (), Messages = replicate 119 sent_message,
           BroadcastRecipients = replicate 119 sent_recipient,
           Broadcasts = [sample_broadcast]\<rparr>
          (sample_broadcast\<lparr>TotalSent := 119\<rparr>) [''unknown''] =
        Returns (None,
          \<lparr>World = (), Messages = replicate 119 sent_message,
           BroadcastRecipients = replicate 119 sent_recipient @ [failed_recipient],
           Broadcasts = [sample_broadcast]\<rparr>,
          sample_broadcast\<lparr>TotalSent := 119\<rparr>)"
      by (rule processBroadcastBatch_sample_unresolved) (simp add: sample_broadcast_def)
    show ?thesis
      by (simp add: process_batch_def processBroadcastBatch_append resolved unresolved
          del: processBroadcastBatch.simps)
  qed
  have name: "Sprintf_d (Unix 63871200000000000000) = ''1735603200''"
    by (simp add: Unix_def Sprintf_d_def)
  have created: "\<lparr>Broadcast.ID = 1, UserID = 2, Name = ''Broadcast_1735603200'', Content = ''hi'',
      MessageType = ''text'', MediaURL = [], Status = ''sending'', ScheduledAt = None,
      SentAt = Some 0, TotalSent = 0, TotalFailed = 0\<rparr> = sample_broadcast"
    by (simp add: sample_broadcast_def)
  have clock: "Now sample_services w = (63871200000000000000, w)" for w
    by (simp add: sample_services_def)
  have store: "DB_write sample_services w = (Inr 1, w)" for w
    by (simp add: sample_services_def)
  have saved: "Save Broadcast.ID True [sample_broadcast]
          (sample_broadcast\<lparr>TotalSent := 119, Broadcast.Status := ''sent'',
             Broadcast.SentAt := Some 63871200000000000000\<rparr>) =
        Inr [\<lparr>Broadcast.ID = 1, UserID = 2, Name = ''Broadcast_1735603200'',
                     Content = ''hi'', MessageType = ''text'', MediaURL = [],
                     Status = ''sent'', ScheduledAt = None, SentAt = Some 63871200000000000000,
                     TotalSent = 119, TotalFailed = 0\<rparr>]"
    by (simp add: sample_broadcast_def Save_def Save_rows_def)
  have "BroadcastMessage sample_services empty_state 2 ?rs ''hi'' ''text'' =
   Returns (None,
     \<lparr>World = (), Messages = replicate 119 sent_message,
      BroadcastRecipients = replicate 119 sent_recipient @ [failed_recipient],
      Broadcasts = [\<lparr>Broadcast.ID = 1, UserID = 2, Name = ''Broadcast_1735603200'',
                     Content = ''hi'', MessageType = ''text'', MediaURL = [],
                     Status = ''sent'', ScheduledAt = None, SentAt = Some 63871200000000000000,
                     TotalSent = 119, TotalFailed = 0\<rparr>]\<rparr>)"
    by (simp add: BroadcastMessage_def BroadcastMessage_loop_sequential empty_state_def
        clock store name created batch saved)
  then show ?thesis by simp
qed

subsection \<open>Dispatch and the status of the campaign\<close>

lemma SendTelegramBroadcast_completes:
  assumes found: "First ID db k = Inr b" and oka okb
  shows "fst (SendTelegramBroadcast oka okb tc tu tg db w k) = None
      \<and> First ID (fst (snd (SendTelegramBroadcast oka okb tc tu tg db w k))) k =
          Inr (b\<lparr>SentAt := Some tc, Status := ''completed'',
                 SuccessCount := fst (SendTelegramBroadcast_loop tg (Message b) (Recipients b) w 0),
                 FailureCount := int (length (Recipients b)) -
                    fst (SendTelegramBroadcast_loop tg (Message b) (Recipients b) w 0),
                 CompletedAt := Some tu\<rparr>)
      \<and> snd (snd (SendTelegramBroadcast oka okb tc tu tg db w k)) =
          snd (SendTelegramBroadcast_loop tg (Message b) (Recipients b) w 0)"
proof -
  let ?b2 = "b\<lparr>SentAt := Some tc, Status := ''completed'',
               SuccessCount := fst (SendTelegramBroadcast_loop tg (Message b) (Recipients b) w 0),
               FailureCount := int (length (Recipients b)) -
                  fst (SendTelegramBroadcast_loop tg (Message b) (Recipients b) w 0),
               CompletedAt := Some tu\<rparr>"
  have key: "ID ?b2 = k" using First_key [OF found] by simp
  have same: "First ID (Save_rows ID (Save_rows ID db (b\<lparr>Status := ''sending'', SentAt := Some tc\<rparr>)) ?b2) k
                = Inr ?b2"
    using First_Save_rows_same
      [of ID "Save_rows ID db (b\<lparr>Status := ''sending'', SentAt := Some tc\<rparr>)" ?b2] key
    by simp
  show ?thesis
    using same \<open>oka\<close> \<open>okb\<close> by (simp add: SendTelegramBroadcast_found [OF found])
qed

lemma SendTelegramBroadcast_None_iff:
  "(fst (SendTelegramBroadcast oka okb tc tu tg db w k) = None) =
     (oka \<and> okb \<and> (\<exists>c. First ID db k = Inr c))"
proof (cases "First ID db k")
  case (Inl e)
  then show ?thesis by (simp add: Send_not_found)
next
  case (Inr c)
  then show ?thesis by (simp add: SendTelegramBroadcast_found [OF Inr])
qed

lemma SendBroadcast_completes:
  assumes found: "First ServiceBroadcast.ID sdb k = Inr sb" and oka okb
  shows "fst (SendBroadcast oka okb tc tu sdb k) = None
      \<and> First ServiceBroadcast.ID (snd (SendBroadcast oka okb tc tu sdb k)) k =
          Inr (sb\<lparr>ServiceBroadcast.SentAt := Some tc, ServiceBroadcast.Status := ''completed'',
                  ServiceBroadcast.SuccessCount := int (length (ServiceBroadcast.Recipients sb)),
                  ServiceBroadcast.FailureCount := 0,
                  ServiceBroadcast.CompletedAt := Some tu\<rparr>)"
proof -
  let ?b2 = "sb\<lparr>ServiceBroadcast.SentAt := Some tc, ServiceBroadcast.Status := ''completed'',
                ServiceBroadcast.SuccessCount := int (length (ServiceBroadcast.Recipients sb)),
                ServiceBroadcast.FailureCount := 0,
                ServiceBroadcast.CompletedAt := Some tu\<rparr>"
  have key: "ServiceBroadcast.ID ?b2 = k" using First_key [OF found] by simp
  have same: "First ServiceBroadcast.ID
                (Save_rows ServiceBroadcast.ID
                   (Save_rows ServiceBroadcast.ID sdb
                      (sb\<lparr>ServiceBroadcast.Status := ''sending'',
                           ServiceBroadcast.SentAt := Some tc\<rparr>)) ?b2) k = Inr ?b2"
    using First_Save_rows_same
      [of ServiceBroadcast.ID
          "Save_rows ServiceBroadcast.ID sdb
             (sb\<lparr>ServiceBroadcast.Status := ''sending'', ServiceBroadcast.SentAt := Some tc\<rparr>)"
          ?b2] key
    by simp
  show ?thesis
    using same \<open>oka\<close> \<open>okb\<close> by (simp add: SendBroadcast_found [OF found])
qed

lemma SendBroadcast_None_iff:
  "(fst (SendBroadcast oka okb tc tu sdb k) = None) =
     (oka \<and> okb \<and> (\<exists>c. First ServiceBroadcast.ID sdb k = Inr c))"
proof (cases "First ServiceBroadcast.ID sdb k")
  case (Inl e)
  then show ?thesis by (simp add: Send_not_found)
next
  case (Inr c)
  then show ?thesis by (simp add: SendBroadcast_found [OF Inr])
qed





subsection \<open>The counters of a campaign\<close>

text \<open>
  C1, as the code has it. A dispatch that returns nil leaves the campaign stored as
  completed with two non-negative counters whose sum is the length of its recipient list
  (\<open>SendTelegramBroadcast\<close>, \<open>SendBroadcast\<close>). During the run, after any number \<open>n\<close> of
  recipients, the running success count is between 0 and the number of recipients
  processed; in the batched dispatcher, starting from counters 0, the two counters are
  non-negative and their sum is at most the number of recipients processed. The equality
  is what the dispatch writes, not an invariant of the store.
\<close>

theorem dispatch_counters_sum_at_completion:
  "(fst (SendTelegramBroadcast oka okb tc tu tg db w k) = None \<longrightarrow>
      (\<exists>b'. First ID (fst (snd (SendTelegramBroadcast oka okb tc tu tg db w k))) k = Inr b'
            \<and> Status b' = ''completed''
            \<and> 0 \<le> SuccessCount b' \<and> 0 \<le> FailureCount b'
            \<and> SuccessCount b' + FailureCount b' = int (length (Recipients b'))))
   \<and> (fst (SendBroadcast oka okb tc tu sdb k) = None \<longrightarrow>
      (\<exists>sb'. First ServiceBroadcast.ID (snd (SendBroadcast oka okb tc tu sdb k)) k = Inr sb'
            \<and> ServiceBroadcast.Status sb' = ''completed''
            \<and> 0 \<le> ServiceBroadcast.SuccessCount sb' \<and> 0 \<le> ServiceBroadcast.FailureCount sb'
            \<and> ServiceBroadcast.SuccessCount sb' + ServiceBroadcast.FailureCount sb' =
                int (length (ServiceBroadcast.Recipients sb'))))
   \<and> 0 \<le> fst (SendTelegramBroadcast_loop tg msg (take n rs) w 0)
   \<and> fst (SendTelegramBroadcast_loop tg msg (take n rs) w 0) \<le> int (min n (length rs))
   \<and> (TotalSent bc = 0 \<longrightarrow> TotalFailed bc = 0 \<longrightarrow>
        processBroadcastBatch env s bc (take n ps) = Returns (e, s', bc') \<longrightarrow>
        0 \<le> TotalSent bc' \<and> 0 \<le> TotalFailed bc'
        \<and> TotalSent bc' + TotalFailed bc' \<le> int (min n (length ps)))"
proof -
  have tg_done: "fst (SendTelegramBroadcast oka okb tc tu tg db w k) = None \<longrightarrow>
      (\<exists>b'. First ID (fst (snd (SendTelegramBroadcast oka okb tc tu tg db w k))) k = Inr b'
            \<and> Status b' = ''completed''
            \<and> 0 \<le> SuccessCount b' \<and> 0 \<le> FailureCount b'
            \<and> SuccessCount b' + FailureCount b' = int (length (Recipients b')))"
  proof
    assume ok: "fst (SendTelegramBroadcast oka okb tc tu tg db w k) = None"
    then obtain b where found: "First ID db k = Inr b" and oka okb
      using SendTelegramBroadcast_None_iff [of oka okb tc tu tg db w k] by blast
    let ?n = "fst (SendTelegramBroadcast_loop tg (Message b) (Recipients b) w 0)"
    let ?b2 = "b\<lparr>SentAt := Some tc, Status := ''completed'', SuccessCount := ?n,
                 FailureCount := int (length (Recipients b)) - ?n, CompletedAt := Some tu\<rparr>"
    have stored: "First ID (fst (snd (SendTelegramBroadcast oka okb tc tu tg db w k))) k = Inr ?b2"
      using SendTelegramBroadcast_completes [OF found \<open>oka\<close> \<open>okb\<close>, of tc tu tg w] by blast
    have bounds: "0 \<le> ?n \<and> ?n \<le> int (length (Recipients b))"
      using SendTelegramBroadcast_loop_bounds [of 0 tg "Message b" "Recipients b" w] by simp
    show "\<exists>b'. First ID (fst (snd (SendTelegramBroadcast oka okb tc tu tg db w k))) k = Inr b'
            \<and> Status b' = ''completed''
            \<and> 0 \<le> SuccessCount b' \<and> 0 \<le> FailureCount b'
            \<and> SuccessCount b' + FailureCount b' = int (length (Recipients b'))"
      using stored bounds by (intro exI [of _ ?b2]) simp
  qed
  have sv_done: "fst (SendBroadcast oka okb tc tu sdb k) = None \<longrightarrow>
      (\<exists>sb'. First ServiceBroadcast.ID (snd (SendBroadcast oka okb tc tu sdb k)) k = Inr sb'
            \<and> ServiceBroadcast.Status sb' = ''completed''
            \<and> 0 \<le> ServiceBroadcast.SuccessCount sb' \<and> 0 \<le> ServiceBroadcast.FailureCount sb'
            \<and> ServiceBroadcast.SuccessCount sb' + ServiceBroadcast.FailureCount sb' =
                int (length (ServiceBroadcast.Recipients sb')))"
  proof
    assume ok: "fst (SendBroadcast oka okb tc tu sdb k) = None"
    then obtain sb where found: "First ServiceBroadcast.ID sdb k = Inr sb" and oka okb
      using SendBroadcast_None_iff [of oka okb tc tu sdb k] by blast
    let ?b2 = "sb\<lparr>ServiceBroadcast.SentAt := Some tc, ServiceBroadcast.Status := ''completed'',
                  ServiceBroadcast.SuccessCount := int (length (ServiceBroadcast.Recipients sb)),
                  ServiceBroadcast.FailureCount := 0,
                  ServiceBroadcast.CompletedAt := Some tu\<rparr>"
    have stored: "First ServiceBroadcast.ID (snd (SendBroadcast oka okb tc tu sdb k)) k = Inr ?b2"
      using SendBroadcast_completes [OF found \<open>oka\<close> \<open>okb\<close>, of tc tu] by blast
    show "\<exists>sb'. First ServiceBroadcast.ID (snd (SendBroadcast oka okb tc tu sdb k)) k = Inr sb'
            \<and> ServiceBroadcast.Status sb' = ''completed''
            \<and> 0 \<le> ServiceBroadcast.SuccessCount sb' \<and> 0 \<le> ServiceBroadcast.FailureCount sb'
            \<and> ServiceBroadcast.SuccessCount sb' + ServiceBroadcast.FailureCount sb' =
                int (length (ServiceBroadcast.Recipients sb'))"
      using stored by (intro exI [of _ ?b2]) simp
  qed
  have running: "0 \<le> fst (SendTelegramBroadcast_loop tg msg (take n rs) w 0)
     \<and> fst (SendTelegramBroadcast_loop tg msg (take n rs) w 0) \<le> int (min n (length rs))"
    using SendTelegramBroadcast_loop_bounds [of 0 tg msg "take n rs" w] by (simp add: min.commute)
  have batch: "TotalSent bc = 0 \<longrightarrow> TotalFailed bc = 0 \<longrightarrow>
        processBroadcastBatch env s bc (take n ps) = Returns (e, s', bc') \<longrightarrow>
        0 \<le> TotalSent bc' \<and> 0 \<le> TotalFailed bc'
        \<and> TotalSent bc' + TotalFailed bc' \<le> int (min n (length ps))"
    using processBroadcastBatch_counters [of env s bc "take n ps" e s' bc']
    by (auto simp: min.commute)
  from tg_done sv_done running batch show ?thesis by blast
qed

theorem dispatch_counters_sum_at_completion_witness:
  "fst (SendTelegramBroadcast True True 1 2 gateway_accepts [campaign ''pending'' [5, 6]] [] 1) = None
   \<and> (\<exists>b'. First ID (fst (snd (SendTelegramBroadcast True True 1 2 gateway_accepts
                                  [campaign ''pending'' [5, 6]] [] 1))) 1 = Inr b'
         \<and> Status b' = ''completed''
         \<and> 0 \<le> SuccessCount b' \<and> 0 \<le> FailureCount b'
         \<and> SuccessCount b' + FailureCount b' = int (length (Recipients b')))
   \<and> fst (SendBroadcast True True 1 2 [service_campaign ''pending'' [''+62'']] 1) = None
   \<and> (\<exists>sb'. First ServiceBroadcast.ID
                 (snd (SendBroadcast True True 1 2 [service_campaign ''pending'' [''+62'']] 1)) 1 =
               Inr sb'
         \<and> ServiceBroadcast.Status sb' = ''completed''
         \<and> 0 \<le> ServiceBroadcast.SuccessCount sb' \<and> 0 \<le> ServiceBroadcast.FailureCount sb'
         \<and> ServiceBroadcast.SuccessCount sb' + ServiceBroadcast.FailureCount sb' =
             int (length (ServiceBroadcast.Recipients sb')))
   \<and> processBroadcastBatch sample_services empty_state sample_broadcast
         (take 1 [''unknown'', ''+62811'']) =
       Returns (None,
         \<lparr>World = (), Messages = [], BroadcastRecipients = [failed_recipient], Broadcasts = []\<rparr>,
         sample_broadcast)
   \<and> TotalSent sample_broadcast + TotalFailed sample_broadcast
         \<le> int (min 1 (length [''unknown'', ''+62811'']))"
proof -
  have h1: "fst (SendTelegramBroadcast True True 1 2 gateway_accepts
                   [campaign ''pending'' [5, 6]] [] 1) = None"
    by (simp add: SendTelegramBroadcast_None_iff campaign_def First_def)
  have h2: "fst (SendBroadcast True True 1 2 [service_campaign ''pending'' [''+62'']] 1) = None"
    by (simp add: SendBroadcast_None_iff service_campaign_def First_def)
  have h3: "TotalSent sample_broadcast = 0" and h4: "TotalFailed sample_broadcast = 0"
    by (simp_all add: sample_broadcast_def)
  have h5: "processBroadcastBatch sample_services empty_state sample_broadcast
         (take 1 [''unknown'', ''+62811'']) =
       Returns (None,
         \<lparr>World = (), Messages = [], BroadcastRecipients = [failed_recipient], Broadcasts = []\<rparr>,
         sample_broadcast)"
    using processBroadcastBatch_sample_unresolved [of sample_broadcast "[]" "[]" "[]"]
    by (simp add: empty_state_def sample_broadcast_def)
  from h1 h2 h3 h4 h5
    dispatch_counters_sum_at_completion
    [where oka = True and okb = True and tc = 1 and tu = 2 and tg = gateway_accepts
       and db = "[campaign ''pending'' [5, 6]]" and w = "[]" and k = 1
       and sdb = "[service_campaign ''pending'' [''+62'']]"
       and msg = "''hello''" and n = 1 and rs = "[5, 6]"
       and bc = sample_broadcast and env = sample_services and s = empty_state
       and ps = "[''unknown'', ''+62811'']" and e = None
       and s' = "\<lparr>World = (), Messages = [], BroadcastRecipients = [failed_recipient],
                  Broadcasts = []\<rparr>"
       and bc' = sample_broadcast]
  show ?thesis by blast
qed

text \<open>
  C1 as stated fails for a completed campaign whose recipients are replaced afterwards:
  \<open>UpdateTelegramBroadcast\<close> has no status check and does not touch the counters, so the
  campaign stays completed with counters summing to 1 and a list of 2 recipients.
\<close>

theorem completed_campaign_counters_counterexample:
  "SendTelegramBroadcast True True 1 2 gateway_accepts [campaign ''pending'' [5]] [] 1 =
     (None,
      [(campaign ''completed'' [5])\<lparr>SentAt := Some 1, SuccessCount := 1, CompletedAt := Some 2\<rparr>],
      [5])
   \<and> UpdateTelegramBroadcast True 3
        [(campaign ''completed'' [5])\<lparr>SentAt := Some 1, SuccessCount := 1, CompletedAt := Some 2\<rparr>]
        1 [] [] (Some [7, 8]) =
     (Inr ((campaign ''completed'' [7, 8])\<lparr>SentAt := Some 1, SuccessCount := 1,
             CompletedAt := Some 2, UpdatedAt := 3\<rparr>),
      [(campaign ''completed'' [7, 8])\<lparr>SentAt := Some 1, SuccessCount := 1,
             CompletedAt := Some 2, UpdatedAt := 3\<rparr>])
   \<and> Status ((campaign ''completed'' [7, 8])\<lparr>SentAt := Some 1, SuccessCount := 1,
             CompletedAt := Some 2, UpdatedAt := 3\<rparr>) = ''completed''
   \<and> SuccessCount ((campaign ''completed'' [7, 8])\<lparr>SentAt := Some 1, SuccessCount := 1,
             CompletedAt := Some 2, UpdatedAt := 3\<rparr>)
       + FailureCount ((campaign ''completed'' [7, 8])\<lparr>SentAt := Some 1, SuccessCount := 1,
             CompletedAt := Some 2, UpdatedAt := 3\<rparr>) = 1
   \<and> int (length (Recipients ((campaign ''completed'' [7, 8])\<lparr>SentAt := Some 1,
             SuccessCount := 1, CompletedAt := Some 2, UpdatedAt := 3\<rparr>))) = 2"
  by (simp add: campaign_def First_def gateway_accepts_def
      SendTelegramBroadcast_def UpdateTelegramBroadcast_def Save_def Save_rows_def Let_def)

subsection \<open>Cancel on the tables the operations produce\<close>

lemma no_draft_First: "no_draft db \<Longrightarrow> First ID db k = Inr b \<Longrightarrow> Status b \<noteq> ''draft''"
  by (auto simp: no_draft_def First_def list_all_iff find_Some_iff split: option.splits)

lemma no_draft_Save_rows:
  "no_draft db \<Longrightarrow> Status r \<noteq> ''draft'' \<Longrightarrow> no_draft (Save_rows ID db r)"
  by (auto simp: no_draft_def Save_rows_def list_all_iff)

lemma no_draft_append: "no_draft db \<Longrightarrow> Status r \<noteq> ''draft'' \<Longrightarrow> no_draft (db @ [r])"
  by (simp add: no_draft_def)

lemma no_draft_empty: "no_draft []"
  by (simp add: no_draft_def)

lemma no_draft_Create:
  "no_draft db \<Longrightarrow> no_draft (snd (CreateTelegramBroadcast ok new_id tc tu db name msg rs uid))"
  by (simp add: CreateTelegramBroadcast_def Create_def Let_def no_draft_append)

lemma no_draft_Update:
  assumes "no_draft db"
  shows "no_draft (snd (UpdateTelegramBroadcast ok now db k name msg rs))"
proof (cases "First ID db k")
  case (Inl e)
  with assms show ?thesis by (simp add: UpdateTelegramBroadcast_def)
next
  case (Inr b)
  with assms show ?thesis
    using no_draft_First [OF assms Inr]
    by (simp add: UpdateTelegramBroadcast_found no_draft_Save_rows)
qed

lemma no_draft_Send:
  assumes "no_draft db"
  shows "no_draft (fst (snd (SendTelegramBroadcast oka okb tc tu tg db w k)))"
proof (cases "First ID db k")
  case (Inl e)
  with assms show ?thesis by (simp add: Send_not_found)
next
  case (Inr b)
  with assms show ?thesis
    by (simp add: SendTelegramBroadcast_found no_draft_Save_rows)
qed

lemma no_draft_Cancel:
  assumes "no_draft db"
  shows "no_draft (snd (CancelTelegramBroadcast ok now db k))"
proof (cases "First ID db k")
  case (Inl e)
  with assms show ?thesis by (simp add: CancelTelegramBroadcast_def)
next
  case (Inr b)
  with assms show ?thesis
    by (simp add: CancelTelegramBroadcast_def Save_def no_draft_Save_rows)
qed

lemma no_draft_Duplicate:
  assumes "no_draft db"
  shows "no_draft (snd (DuplicateTelegramBroadcast ok new_id tc tu db k uid))"
proof (cases "First ID db k")
  case (Inl e)
  with assms show ?thesis by (simp add: DuplicateTelegramBroadcast_def)
next
  case (Inr b)
  with assms show ?thesis
    by (simp add: DuplicateTelegramBroadcast_found no_draft_append)
qed

lemma no_draft_Import:
  assumes "no_draft db"
  shows "no_draft (snd (ImportTelegramBroadcastRecipients ok now db k rs))"
proof (cases "First ID db k")
  case (Inl e)
  with assms show ?thesis by (simp add: ImportTelegramBroadcastRecipients_def)
next
  case (Inr b)
  with assms show ?thesis
    using no_draft_First [OF assms Inr]
    by (simp add: ImportTelegramBroadcastRecipients_found no_draft_Save_rows)
qed

lemma no_draft_Delete: "no_draft db \<Longrightarrow> no_draft (snd (DeleteTelegramBroadcast ok db k))"
  by (auto simp: DeleteTelegramBroadcast_def no_draft_def list_all_iff)

text \<open>
  C3. On a table the operations can produce (no stored campaign is a draft), for an
  existing campaign and an accepted write, \<open>CancelTelegramBroadcast\<close> succeeds if and only
  if the status is in \<open>{draft, pending}\<close>; it then stores the campaign as cancelled and
  leaves every other campaign as it was. In every other status it returns the error "can
  only cancel pending broadcasts" and the table is unchanged. Whenever it returns an
  error the table is unchanged, and it keeps \<open>no_draft\<close>.
\<close>

theorem CancelTelegramBroadcast_draft_or_pending:
  "(no_draft db \<longrightarrow> First ID db k = Inr b \<longrightarrow> ok \<longrightarrow>
      ((fst (CancelTelegramBroadcast ok now db k) = None) = (Status b \<in> {''draft'', ''pending''}))
      \<and> (Status b \<in> {''draft'', ''pending''} \<longrightarrow>
            First ID (snd (CancelTelegramBroadcast ok now db k)) k =
              Inr (b\<lparr>Status := ''cancelled'', UpdatedAt := now\<rparr>)
            \<and> (\<forall>j. j \<noteq> k \<longrightarrow>
                  First ID (snd (CancelTelegramBroadcast ok now db k)) j = First ID db j))
      \<and> (Status b \<notin> {''draft'', ''pending''} \<longrightarrow>
            CancelTelegramBroadcast ok now db k =
              (Some (Errorf ''can only cancel pending broadcasts''), db)))
   \<and> (fst (CancelTelegramBroadcast ok now db k) \<noteq> None \<longrightarrow>
        snd (CancelTelegramBroadcast ok now db k) = db)
   \<and> (no_draft db \<longrightarrow> no_draft (snd (CancelTelegramBroadcast ok now db k)))"
proof -
  have main: "no_draft db \<longrightarrow> First ID db k = Inr b \<longrightarrow> ok \<longrightarrow>
      ((fst (CancelTelegramBroadcast ok now db k) = None) = (Status b \<in> {''draft'', ''pending''}))
      \<and> (Status b \<in> {''draft'', ''pending''} \<longrightarrow>
            First ID (snd (CancelTelegramBroadcast ok now db k)) k =
              Inr (b\<lparr>Status := ''cancelled'', UpdatedAt := now\<rparr>)
            \<and> (\<forall>j. j \<noteq> k \<longrightarrow>
                  First ID (snd (CancelTelegramBroadcast ok now db k)) j = First ID db j))
      \<and> (Status b \<notin> {''draft'', ''pending''} \<longrightarrow>
            CancelTelegramBroadcast ok now db k =
              (Some (Errorf ''can only cancel pending broadcasts''), db))"
  proof (intro impI)
    assume inv: "no_draft db" and found: "First ID db k = Inr b" and ok
    have nd: "Status b \<noteq> ''draft''" by (rule no_draft_First [OF inv found])
    then have mem: "(Status b \<in> {''draft'', ''pending''}) = (Status b = ''pending'')" by simp
    show "((fst (CancelTelegramBroadcast ok now db k) = None) = (Status b \<in> {''draft'', ''pending''}))
      \<and> (Status b \<in> {''draft'', ''pending''} \<longrightarrow>
            First ID (snd (CancelTelegramBroadcast ok now db k)) k =
              Inr (b\<lparr>Status := ''cancelled'', UpdatedAt := now\<rparr>)
            \<and> (\<forall>j. j \<noteq> k \<longrightarrow>
                  First ID (snd (CancelTelegramBroadcast ok now db k)) j = First ID db j))
      \<and> (Status b \<notin> {''draft'', ''pending''} \<longrightarrow>
            CancelTelegramBroadcast ok now db k =
              (Some (Errorf ''can only cancel pending broadcasts''), db))"
      unfolding mem
      using CancelTelegramBroadcast_cases [of ok now db k b] found \<open>ok\<close> by auto
  qed
  have err: "fst (CancelTelegramBroadcast ok now db k) \<noteq> None \<longrightarrow>
        snd (CancelTelegramBroadcast ok now db k) = db"
    using CancelTelegramBroadcast_cases [of ok now db k b] by blast
  from main err no_draft_Cancel [of db ok now k] show ?thesis by blast
qed

theorem CancelTelegramBroadcast_draft_or_pending_witness:
  "no_draft [campaign ''pending'' [5]]
   \<and> fst (CancelTelegramBroadcast True 9 [campaign ''pending'' [5]] 1) = None
   \<and> First ID (snd (CancelTelegramBroadcast True 9 [campaign ''pending'' [5]] 1)) 1 =
       Inr ((campaign ''pending'' [5])\<lparr>Status := ''cancelled'', UpdatedAt := 9\<rparr>)
   \<and> no_draft [campaign ''completed'' [5]]
   \<and> CancelTelegramBroadcast True 9 [campaign ''completed'' [5]] 1 =
       (Some (Errorf ''can only cancel pending broadcasts''), [campaign ''completed'' [5]])"
proof -
  have h1: "no_draft [campaign ''pending'' [5]]" and h2: "no_draft [campaign ''completed'' [5]]"
    by (simp_all add: no_draft_def campaign_def)
  have f1: "First ID [campaign ''pending'' [5]] 1 = Inr (campaign ''pending'' [5])"
    and f2: "First ID [campaign ''completed'' [5]] 1 = Inr (campaign ''completed'' [5])"
    by (simp_all add: First_def campaign_def)
  have s1: "Status (campaign ''pending'' [5]) \<in> {''draft'', ''pending''}"
    and s2: "Status (campaign ''completed'' [5]) \<notin> {''draft'', ''pending''}"
    by (simp_all add: campaign_def)
  from h1 h2 f1 f2 s1 s2
    CancelTelegramBroadcast_draft_or_pending
      [of "[campaign ''pending'' [5]]" 1 "campaign ''pending'' [5]" True 9]
    CancelTelegramBroadcast_draft_or_pending
      [of "[campaign ''completed'' [5]]" 1 "campaign ''completed'' [5]" True 9]
  show ?thesis by blast
qed

end
